theory Spec2Isabelle
  imports Main "HOL-Library.AList" "HOL-Library.Dlist" "HOL-Library.Sublist"
begin

section \<open>The WebRTC handler of the meeting page\<close>

text \<open>
  The module under verification is the class \<open>WebRTCHandler\<close>: a map from participant ids
  to \<open>RTCPeerConnection\<close> objects, a WebSocket used for signaling, and one handler per
  kind of inbound signaling message.

  The class keeps no negotiation state of its own. The state of a connection is the
  \<open>signalingState\<close> of the browser's \<open>RTCPeerConnection\<close> object, and every step of a
  negotiation is a call to that object. The browser is therefore part of the model: the
  peer-connection objects live in an explicit store (\<open>heap\<close>), the map of the class holds
  their addresses, and the calls the class makes on them follow the signaling state table
  of the WebRTC recommendation. What the recommendation leaves to the implementation
  (whether a description or a candidate parses, the text of a generated description) is a
  parameter, the record \<open>platform\<close>.

  The handlers are \<open>async\<close> functions, and the model has them twice. First each handler
  as one function from state to state (\<open>handleUserJoined\<close>, \<open>handleOffer\<close>, ...): the
  handler with every promise it awaits settled before anything else happens. An exception
  that leaves a handler is the first component of its result; the second component is the
  state the handler left behind, since the page goes on handling messages after a rejected
  promise. Then the handlers as the event loop runs them (\<open>deliver\<close>, \<open>complete\<close>,
  \<open>run\<close>): a handler runs up to its first \<open>await\<close>, the awaited operation waits in the
  operations chain of its connection, and the rest of the handler runs when the browser
  has finished that operation, while other messages may arrive in between.
\<close>

subsection \<open>Values on the wire\<close>

text \<open>
  An id read from a message is \<open>None\<close> when the field is absent (\<open>undefined\<close> in the
  source). The same holds for every other field of a message.
\<close>

type_synonym ident = "string option"

text \<open>
  A track is identified by a number. A local stream is a duplicate-free list of tracks
  (\<open>track dlist\<close>), as \<open>getTracks\<close> lists every track of a stream once.

  A session description has one of the four types of \<open>RTCSdpType\<close>. The class creates
  offers and answers only, but it hands the description of a peer to the browser as it
  came, so a peer can make it apply a provisional answer or a rollback too.
\<close>

type_synonym track = nat

datatype sdpType = Offer | Pranswer | Answer | Rollback

record sessionDescription =
  sdType :: sdpType
  sdpText :: string

record iceCandidate =
  candidateText :: string
  sdpMid :: "string option"
  sdpMLineIndex :: "nat option"

record signal =
  msgType :: "string option"
  msgUserId :: ident
  msgUserName :: ident
  msgFrom :: ident
  msgTo :: ident
  msgSdp :: "sessionDescription option"
  msgCandidate :: "iceCandidate option"
  msgIsMuted :: "bool option"
  msgIsVideoOff :: "bool option"

definition emptySignal :: signal where
  "emptySignal = \<lparr>msgType = None, msgUserId = None, msgUserName = None, msgFrom = None,
     msgTo = None, msgSdp = None, msgCandidate = None, msgIsMuted = None,
     msgIsVideoOff = None\<rparr>"

subsection \<open>The browser: peer connections, sockets, console\<close>

datatype error = TypeError | InvalidStateError | InvalidAccessError | OperationError

datatype signalingState =
    STABLE | HAVE_LOCAL_OFFER | HAVE_REMOTE_OFFER | HAVE_LOCAL_PRANSWER | HAVE_REMOTE_PRANSWER
  | SIG_CLOSED

datatype readyState = WS_CONNECTING | WS_OPEN | WS_CLOSING | WS_CLOSED

text \<open>
  A peer connection object. The four description fields are the attributes of the same
  names: a description is pending while its negotiation round is open and becomes current
  when the round is closed by an answer. \<open>remoteCandidates\<close> are the remote candidates the
  object has accepted, in the order it accepted them; \<open>senders\<close> are the tracks attached to
  it; \<open>remoteUser\<close> is the \<open>userId\<close> that the callbacks installed by
  \<open>createPeerConnection\<close> close over.
\<close>

record rtcPeerConnection =
  signalingState :: signalingState
  currentLocalDescription :: "sessionDescription option"
  pendingLocalDescription :: "sessionDescription option"
  currentRemoteDescription :: "sessionDescription option"
  pendingRemoteDescription :: "sessionDescription option"
  remoteCandidates :: "iceCandidate list"
  senders :: "track list"
  remoteUser :: ident

text \<open>The attributes \<open>localDescription\<close> and \<open>remoteDescription\<close>: the pending
  description if there is one, the current one otherwise.\<close>

definition localDescription :: "rtcPeerConnection \<Rightarrow> sessionDescription option" where
  "localDescription pc =
     (case pendingLocalDescription pc of
        Some d \<Rightarrow> Some d
      | None \<Rightarrow> currentLocalDescription pc)"

definition remoteDescription :: "rtcPeerConnection \<Rightarrow> sessionDescription option" where
  "remoteDescription pc =
     (case pendingRemoteDescription pc of
        Some d \<Rightarrow> Some d
      | None \<Rightarrow> currentRemoteDescription pc)"

text \<open>
  What the browser decides on its own: whether the content of a remote description or of a
  candidate is acceptable, and the text of the descriptions it generates.
\<close>

record platform =
  acceptsDescription :: "sessionDescription \<Rightarrow> bool"
  acceptsCandidate :: "iceCandidate \<Rightarrow> bool"
  offerText :: "rtcPeerConnection \<Rightarrow> string"
  answerText :: "rtcPeerConnection \<Rightarrow> string"

definition newRTCPeerConnection :: "ident \<Rightarrow> rtcPeerConnection" where
  "newRTCPeerConnection uid = \<lparr>signalingState = STABLE, currentLocalDescription = None,
     pendingLocalDescription = None, currentRemoteDescription = None,
     pendingRemoteDescription = None, remoteCandidates = [], senders = [],
     remoteUser = uid\<rparr>"

text \<open>
  The methods of a peer connection the class calls. Each returns \<open>Inl\<close> with the error
  where the browser throws or rejects the promise. The state checks are those of the
  signaling state table of the WebRTC recommendation:
  \<^item> an offer is created in \<open>STABLE\<close> or \<open>HAVE_LOCAL_OFFER\<close>, an answer in
    \<open>HAVE_REMOTE_OFFER\<close> or \<open>HAVE_LOCAL_PRANSWER\<close>;
  \<^item> a local offer is set in \<open>STABLE\<close> or \<open>HAVE_LOCAL_OFFER\<close>; a local answer or
    provisional answer in \<open>HAVE_REMOTE_OFFER\<close> or \<open>HAVE_LOCAL_PRANSWER\<close>;
  \<^item> a remote offer is applied in \<open>STABLE\<close> or \<open>HAVE_REMOTE_OFFER\<close>, and in
    \<open>HAVE_LOCAL_OFFER\<close> after the pending local offer has been rolled back; a remote answer
    or provisional answer in \<open>HAVE_LOCAL_OFFER\<close> or \<open>HAVE_REMOTE_PRANSWER\<close>;
  \<^item> a rollback is applied in \<open>HAVE_LOCAL_OFFER\<close> or \<open>HAVE_REMOTE_OFFER\<close>;
  \<^item> a closed connection accepts nothing.
  An answer closes the round: the pending descriptions become the current ones. A remote
  description whose content the browser does not accept is refused with an
  \<open>OperationError\<close>. A candidate is accepted only when a remote description is set.
\<close>

definition pc_addTrack :: "rtcPeerConnection \<Rightarrow> track \<Rightarrow> error + rtcPeerConnection" where
  "pc_addTrack pc t =
     (if signalingState pc = SIG_CLOSED then Inl InvalidStateError
      else if t \<in> set (senders pc) then Inl InvalidAccessError
      else Inr (pc\<lparr>senders := senders pc @ [t]\<rparr>))"

definition pc_createOffer :: "platform \<Rightarrow> rtcPeerConnection \<Rightarrow> error + sessionDescription" where
  "pc_createOffer P pc =
     (if signalingState pc = STABLE \<or> signalingState pc = HAVE_LOCAL_OFFER
      then Inr \<lparr>sdType = Offer, sdpText = offerText P pc\<rparr>
      else Inl InvalidStateError)"

definition pc_createAnswer :: "platform \<Rightarrow> rtcPeerConnection \<Rightarrow> error + sessionDescription" where
  "pc_createAnswer P pc =
     (if signalingState pc = HAVE_REMOTE_OFFER \<or> signalingState pc = HAVE_LOCAL_PRANSWER
      then Inr \<lparr>sdType = Answer, sdpText = answerText P pc\<rparr>
      else Inl InvalidStateError)"

text \<open>The effect of a rollback: both pending descriptions are dropped and the connection
  is stable again.\<close>

definition rollback :: "rtcPeerConnection \<Rightarrow> rtcPeerConnection" where
  "rollback pc = pc\<lparr>signalingState := STABLE, pendingLocalDescription := None,
     pendingRemoteDescription := None\<rparr>"

definition pc_setLocalDescription ::
  "rtcPeerConnection \<Rightarrow> sessionDescription \<Rightarrow> error + rtcPeerConnection" where
  "pc_setLocalDescription pc d =
     (case sdType d of
        Offer \<Rightarrow>
          if signalingState pc = STABLE \<or> signalingState pc = HAVE_LOCAL_OFFER
          then Inr (pc\<lparr>signalingState := HAVE_LOCAL_OFFER, pendingLocalDescription := Some d\<rparr>)
          else Inl InvalidStateError
      | Pranswer \<Rightarrow>
          if signalingState pc = HAVE_REMOTE_OFFER \<or> signalingState pc = HAVE_LOCAL_PRANSWER
          then Inr (pc\<lparr>signalingState := HAVE_LOCAL_PRANSWER,
                       pendingLocalDescription := Some d\<rparr>)
          else Inl InvalidStateError
      | Answer \<Rightarrow>
          if signalingState pc = HAVE_REMOTE_OFFER \<or> signalingState pc = HAVE_LOCAL_PRANSWER
          then Inr (pc\<lparr>signalingState := STABLE,
                       currentLocalDescription := Some d,
                       currentRemoteDescription := pendingRemoteDescription pc,
                       pendingLocalDescription := None,
                       pendingRemoteDescription := None\<rparr>)
          else Inl InvalidStateError
      | Rollback \<Rightarrow>
          if signalingState pc = HAVE_LOCAL_OFFER \<or> signalingState pc = HAVE_REMOTE_OFFER
          then Inr (rollback pc)
          else Inl InvalidStateError)"

definition pc_setRemoteDescription ::
  "platform \<Rightarrow> rtcPeerConnection \<Rightarrow> sessionDescription \<Rightarrow> error + rtcPeerConnection" where
  "pc_setRemoteDescription P pc d =
     (case sdType d of
        Offer \<Rightarrow>
          if signalingState pc = STABLE \<or> signalingState pc = HAVE_REMOTE_OFFER
             \<or> signalingState pc = HAVE_LOCAL_OFFER
          then (if acceptsDescription P d
                then Inr ((if signalingState pc = HAVE_LOCAL_OFFER then rollback pc else pc)
                            \<lparr>signalingState := HAVE_REMOTE_OFFER,
                               pendingRemoteDescription := Some d\<rparr>)
                else Inl OperationError)
          else Inl InvalidStateError
      | Pranswer \<Rightarrow>
          if signalingState pc = HAVE_LOCAL_OFFER \<or> signalingState pc = HAVE_REMOTE_PRANSWER
          then (if acceptsDescription P d
                then Inr (pc\<lparr>signalingState := HAVE_REMOTE_PRANSWER,
                             pendingRemoteDescription := Some d\<rparr>)
                else Inl OperationError)
          else Inl InvalidStateError
      | Answer \<Rightarrow>
          if signalingState pc = HAVE_LOCAL_OFFER \<or> signalingState pc = HAVE_REMOTE_PRANSWER
          then (if acceptsDescription P d
                then Inr (pc\<lparr>signalingState := STABLE,
                             currentLocalDescription := pendingLocalDescription pc,
                             currentRemoteDescription := Some d,
                             pendingLocalDescription := None,
                             pendingRemoteDescription := None\<rparr>)
                else Inl OperationError)
          else Inl InvalidStateError
      | Rollback \<Rightarrow>
          if signalingState pc = HAVE_LOCAL_OFFER \<or> signalingState pc = HAVE_REMOTE_OFFER
          then Inr (rollback pc)
          else Inl InvalidStateError)"

text \<open>The constructor of \<open>RTCIceCandidate\<close> throws when both \<open>sdpMid\<close> and
  \<open>sdpMLineIndex\<close> are null.\<close>

definition newRTCIceCandidate :: "iceCandidate \<Rightarrow> error + iceCandidate" where
  "newRTCIceCandidate c =
     (if sdpMid c = None \<and> sdpMLineIndex c = None then Inl TypeError else Inr c)"

text \<open>The constructor of \<open>RTCSessionDescription\<close> throws when it is given no dictionary.\<close>

definition newRTCSessionDescription :: "sessionDescription option \<Rightarrow> error + sessionDescription" where
  "newRTCSessionDescription s = (case s of None \<Rightarrow> Inl TypeError | Some d \<Rightarrow> Inr d)"

definition pc_addIceCandidate ::
  "platform \<Rightarrow> rtcPeerConnection \<Rightarrow> iceCandidate \<Rightarrow> error + rtcPeerConnection" where
  "pc_addIceCandidate P pc c =
     (if signalingState pc = SIG_CLOSED then Inl InvalidStateError
      else if remoteDescription pc = None then Inl InvalidStateError
      else if \<not> acceptsCandidate P c then Inl OperationError
      else Inr (pc\<lparr>remoteCandidates := remoteCandidates pc @ [c]\<rparr>))"

definition pc_close :: "rtcPeerConnection \<Rightarrow> rtcPeerConnection" where
  "pc_close pc = pc\<lparr>signalingState := SIG_CLOSED\<rparr>"

text \<open>A line written to the console: the fixed text of the call and the values
  interpolated into it.\<close>

datatype consoleEntry =
    ConsoleLog string "ident list"
  | ConsoleError string "ident list" error

subsection \<open>The handler object\<close>

type_synonym addr = nat

text \<open>
  The fields of \<open>WebRTCHandler\<close>, followed by the part of the browser the class acts on:
  the store of peer connection objects, the messages handed to \<open>ws.send\<close> and the
  console. \<open>peerConnections\<close> is the \<open>Map\<close> of the class as an association list in
  insertion order, from ids to addresses in the store. \<open>ws\<close> is \<open>None\<close> for \<open>null\<close> and
  otherwise the \<open>readyState\<close> of the socket.
\<close>

record webRTCHandler =
  meetingId :: string
  userId :: ident
  userName :: ident
  localStream :: "track dlist option"
  peerConnections :: "(ident \<times> addr) list"
  ws :: "readyState option"
  heap :: "rtcPeerConnection list"
  sent :: "signal list"
  console :: "consoleEntry list"

type_synonym outcome = "error option \<times> webRTCHandler"

definition constructor :: "string \<Rightarrow> ident \<Rightarrow> ident \<Rightarrow> track dlist option \<Rightarrow> webRTCHandler" where
  "constructor mid uid uname stream = \<lparr>meetingId = mid, userId = uid, userName = uname,
     localStream = stream, peerConnections = [], ws = None, heap = [], sent = [],
     console = []\<rparr>"

definition consoleLog :: "string \<Rightarrow> ident list \<Rightarrow> webRTCHandler \<Rightarrow> webRTCHandler" where
  "consoleLog txt args h = h\<lparr>console := console h @ [ConsoleLog txt args]\<rparr>"

definition consoleError :: "string \<Rightarrow> ident list \<Rightarrow> error \<Rightarrow> webRTCHandler \<Rightarrow> webRTCHandler" where
  "consoleError txt args e h = h\<lparr>console := console h @ [ConsoleError txt args e]\<rparr>"

definition setPc :: "addr \<Rightarrow> rtcPeerConnection \<Rightarrow> webRTCHandler \<Rightarrow> webRTCHandler" where
  "setPc a pc h = h\<lparr>heap := (heap h)[a := pc]\<rparr>"

definition sendSignal :: "signal \<Rightarrow> webRTCHandler \<Rightarrow> webRTCHandler" where
  "sendSignal data h =
     (if ws h = Some WS_OPEN
      then h\<lparr>sent := sent h @ [data\<lparr>msgFrom := userId h\<rparr>]\<rparr>
      else h)"

definition createPeerConnection :: "ident \<Rightarrow> webRTCHandler \<Rightarrow> addr \<times> webRTCHandler" where
  "createPeerConnection uid h =
     (let a = length (heap h)
      in (a, h\<lparr>heap := heap h @ [newRTCPeerConnection uid],
               peerConnections := AList.update uid a (peerConnections h)\<rparr>))"

text \<open>The callback \<open>pc.onicecandidate\<close> of the connection at address \<open>a\<close>.\<close>

definition onicecandidate :: "addr \<Rightarrow> iceCandidate option \<Rightarrow> webRTCHandler \<Rightarrow> webRTCHandler" where
  "onicecandidate a candidate h =
     (case candidate of
        None \<Rightarrow> h
      | Some c \<Rightarrow>
          sendSignal (emptySignal\<lparr>msgType := Some ''ice-candidate'',
                        msgTo := remoteUser (heap h ! a), msgCandidate := Some c\<rparr>) h)"

text \<open>The loop \<open>localStream.getTracks().forEach(track => pc.addTrack(track, ...))\<close>: it
  stops at the first call that throws, and the tracks attached before stay attached.\<close>

fun addTracks :: "track list \<Rightarrow> rtcPeerConnection \<Rightarrow> error option \<times> rtcPeerConnection" where
  "addTracks [] pc = (None, pc)"
| "addTracks (t # ts) pc =
     (case pc_addTrack pc t of
        Inl e \<Rightarrow> (Some e, pc)
      | Inr pc' \<Rightarrow> addTracks ts pc')"

definition addLocalStream :: "addr \<Rightarrow> webRTCHandler \<Rightarrow> outcome" where
  "addLocalStream a h =
     (case localStream h of
        None \<Rightarrow> (None, h)
      | Some stream \<Rightarrow>
          (case addTracks (list_of_dlist stream) (heap h ! a) of
             (e, pc') \<Rightarrow> (e, setPc a pc' h)))"

definition handleUserJoined :: "platform \<Rightarrow> signal \<Rightarrow> webRTCHandler \<Rightarrow> outcome" where
  "handleUserJoined P message h =
     (if msgUserId message = userId h then (None, h)
      else
        let h1 = consoleLog ''WebRTC: User joined'' [msgUserName message, msgUserId message] h;
            (a, h2) = createPeerConnection (msgUserId message) h1
        in (case addLocalStream a h2 of
              (Some e, h3) \<Rightarrow> (Some e, h3)
            | (None, h3) \<Rightarrow>
                (case pc_createOffer P (heap h3 ! a) of
                   Inl e \<Rightarrow>
                     (None, consoleError ''WebRTC: Error creating offer for''
                              [msgUserId message] e h3)
                 | Inr offer \<Rightarrow>
                     (case pc_setLocalDescription (heap h3 ! a) offer of
                        Inl e \<Rightarrow>
                          (None, consoleError ''WebRTC: Error creating offer for''
                                   [msgUserId message] e h3)
                      | Inr pc' \<Rightarrow>
                          (None, sendSignal (emptySignal\<lparr>msgType := Some ''offer'',
                                   msgTo := msgUserId message, msgSdp := Some offer\<rparr>)
                                   (setPc a pc' h3))))))"

definition handleUserLeft :: "signal \<Rightarrow> webRTCHandler \<Rightarrow> webRTCHandler" where
  "handleUserLeft message h =
     (let h1 = consoleLog ''WebRTC: User left'' [msgUserId message] h
      in (case map_of (peerConnections h1) (msgUserId message) of
            None \<Rightarrow> h1
          | Some a \<Rightarrow>
              (setPc a (pc_close (heap h1 ! a)) h1)
                \<lparr>peerConnections := AList.delete (msgUserId message) (peerConnections h1)\<rparr>))"

text \<open>The body of the \<open>try\<close> block of \<open>handleOffer\<close>; \<open>Inl\<close> is what the \<open>catch\<close>
  receives, paired with the state at the throw.\<close>

definition offerSteps :: "platform \<Rightarrow> signal \<Rightarrow> addr \<Rightarrow> webRTCHandler \<Rightarrow> outcome" where
  "offerSteps P message a h =
     (case newRTCSessionDescription (msgSdp message) of
        Inl e \<Rightarrow> (Some e, h)
      | Inr d \<Rightarrow>
          (case pc_setRemoteDescription P (heap h ! a) d of
             Inl e \<Rightarrow> (Some e, h)
           | Inr pc1 \<Rightarrow>
               let h1 = setPc a pc1 h
               in (case pc_createAnswer P (heap h1 ! a) of
                     Inl e \<Rightarrow> (Some e, h1)
                   | Inr answer \<Rightarrow>
                       (case pc_setLocalDescription (heap h1 ! a) answer of
                          Inl e \<Rightarrow> (Some e, h1)
                        | Inr pc2 \<Rightarrow>
                            (None, sendSignal (emptySignal\<lparr>msgType := Some ''answer'',
                                     msgTo := msgFrom message, msgSdp := Some answer\<rparr>)
                                     (setPc a pc2 h1))))))"

text \<open>The \<open>try\<close> block of \<open>handleOffer\<close> with its \<open>catch\<close>.\<close>

definition offerTry :: "platform \<Rightarrow> signal \<Rightarrow> addr \<Rightarrow> webRTCHandler \<Rightarrow> outcome" where
  "offerTry P message a h =
     (case offerSteps P message a h of
        (Some err, h') \<Rightarrow>
          (None, consoleError ''WebRTC: Error handling offer from'' [msgFrom message] err h')
      | (None, h') \<Rightarrow> (None, h'))"

definition handleOffer :: "platform \<Rightarrow> signal \<Rightarrow> webRTCHandler \<Rightarrow> outcome" where
  "handleOffer P message h =
     (let h1 = consoleLog ''WebRTC: Received offer from'' [msgFrom message] h
      in (case map_of (peerConnections h1) (msgFrom message) of
            Some a \<Rightarrow> offerTry P message a h1
          | None \<Rightarrow>
              (let (a, h2) = createPeerConnection (msgFrom message) h1
               in (case addLocalStream a h2 of
                     (Some err, h3) \<Rightarrow> (Some err, h3)
                   | (None, h3) \<Rightarrow> offerTry P message a h3))))"

definition handleAnswer :: "platform \<Rightarrow> signal \<Rightarrow> webRTCHandler \<Rightarrow> outcome" where
  "handleAnswer P message h =
     (let h1 = consoleLog ''WebRTC: Received answer from'' [msgFrom message] h
      in (case map_of (peerConnections h1) (msgFrom message) of
            None \<Rightarrow> (None, h1)
          | Some a \<Rightarrow>
              (case newRTCSessionDescription (msgSdp message) of
                 Inl e \<Rightarrow>
                   (None, consoleError ''WebRTC: Error setting remote description from''
                            [msgFrom message] e h1)
               | Inr d \<Rightarrow>
                   (case pc_setRemoteDescription P (heap h1 ! a) d of
                      Inl e \<Rightarrow>
                        (None, consoleError ''WebRTC: Error setting remote description from''
                                 [msgFrom message] e h1)
                    | Inr pc' \<Rightarrow> (None, setPc a pc' h1)))))"

definition handleIceCandidate :: "platform \<Rightarrow> signal \<Rightarrow> webRTCHandler \<Rightarrow> outcome" where
  "handleIceCandidate P message h =
     (case (map_of (peerConnections h) (msgFrom message), msgCandidate message) of
        (Some a, Some candidate) \<Rightarrow>
          (case newRTCIceCandidate candidate of
             Inl e \<Rightarrow>
               (None, consoleError ''WebRTC: Error adding ICE candidate from''
                        [msgFrom message] e h)
           | Inr c \<Rightarrow>
               (case pc_addIceCandidate P (heap h ! a) c of
                  Inl e \<Rightarrow>
                    (None, consoleError ''WebRTC: Error adding ICE candidate from''
                             [msgFrom message] e h)
                | Inr pc' \<Rightarrow> (None, setPc a pc' h)))
      | _ \<Rightarrow> (None, h))"

definition handleSignalingMessage :: "platform \<Rightarrow> signal \<Rightarrow> webRTCHandler \<Rightarrow> outcome" where
  "handleSignalingMessage P message h =
     (let h1 = consoleLog ''WebRTC: Received signaling message:'' [msgType message] h
      in if msgType message = Some ''user-joined'' then handleUserJoined P message h1
         else if msgType message = Some ''user-left'' then (None, handleUserLeft message h1)
         else if msgType message = Some ''offer'' then handleOffer P message h1
         else if msgType message = Some ''answer'' then handleAnswer P message h1
         else if msgType message = Some ''ice-candidate'' then handleIceCandidate P message h1
         else (None, h1))"

text \<open>\<open>ws.onmessage\<close> on a sequence of messages, in arrival order, when every handler
  has finished before the next message arrives. The promise of a handler that threw is
  rejected and dropped; the next message is handled all the same.\<close>

fun onmessages :: "platform \<Rightarrow> signal list \<Rightarrow> webRTCHandler \<Rightarrow> webRTCHandler" where
  "onmessages P [] h = h"
| "onmessages P (m # ms) h = onmessages P ms (snd (handleSignalingMessage P m h))"

text \<open>\<open>ws.onopen\<close>: the socket is open, the handler announces itself.\<close>

definition onopen :: "webRTCHandler \<Rightarrow> webRTCHandler" where
  "onopen h =
     (let h1 = consoleLog ''WebRTC: WebSocket connected'' [] (h\<lparr>ws := Some WS_OPEN\<rparr>)
      in sendSignal (emptySignal\<lparr>msgType := Some ''join'', msgUserId := userId h1,
                       msgUserName := userName h1\<rparr>) h1)"

definition notifyMediaStateChange :: "bool \<Rightarrow> bool \<Rightarrow> webRTCHandler \<Rightarrow> webRTCHandler" where
  "notifyMediaStateChange isMuted isVideoOff h =
     sendSignal (emptySignal\<lparr>msgType := Some ''media-state-change'', msgUserId := userId h,
                   msgIsMuted := Some isMuted, msgIsVideoOff := Some isVideoOff\<rparr>) h"

definition pc_removeTrack :: "rtcPeerConnection \<Rightarrow> track \<Rightarrow> error + rtcPeerConnection" where
  "pc_removeTrack pc t =
     (if signalingState pc = SIG_CLOSED then Inl InvalidStateError
      else Inr (pc\<lparr>senders := removeAll t (senders pc)\<rparr>))"

text \<open>The renegotiation both screen-share loops end with: a new offer for the connection
  at \<open>a\<close>, sent to \<open>uid\<close>. \<open>Inl\<close> is what the \<open>catch\<close> of the loop body receives.\<close>

definition renegotiate :: "platform \<Rightarrow> ident \<Rightarrow> addr \<Rightarrow> webRTCHandler \<Rightarrow> error + webRTCHandler" where
  "renegotiate P uid a h =
     (case pc_createOffer P (heap h ! a) of
        Inl e \<Rightarrow> Inl e
      | Inr offer \<Rightarrow>
          (case pc_setLocalDescription (heap h ! a) offer of
             Inl e \<Rightarrow> Inl e
           | Inr pc' \<Rightarrow>
               Inr (sendSignal (emptySignal\<lparr>msgType := Some ''offer'', msgTo := uid,
                      msgSdp := Some offer\<rparr>) (setPc a pc' h))))"

fun addScreenShareLoop ::
  "platform \<Rightarrow> track \<Rightarrow> (ident \<times> addr) list \<Rightarrow> webRTCHandler \<Rightarrow> webRTCHandler" where
  "addScreenShareLoop P t [] h = h"
| "addScreenShareLoop P t ((uid, a) # es) h =
     addScreenShareLoop P t es
       (case pc_addTrack (heap h ! a) t of
          Inl e \<Rightarrow> consoleError ''WebRTC: Error adding screen share for'' [uid] e h
        | Inr pc1 \<Rightarrow>
            (case renegotiate P uid a (setPc a pc1 h) of
               Inl e \<Rightarrow>
                 consoleError ''WebRTC: Error adding screen share for'' [uid] e (setPc a pc1 h)
             | Inr h' \<Rightarrow> h'))"

definition addScreenShareTrack :: "platform \<Rightarrow> track \<Rightarrow> webRTCHandler \<Rightarrow> outcome" where
  "addScreenShareTrack P t h =
     (let h1 = consoleLog ''WebRTC: Adding screen share track to all peers'' [] h;
          h2 = addScreenShareLoop P t (peerConnections h1) h1
      in (None, sendSignal (emptySignal\<lparr>msgType := Some ''screen-share-started'',
                  msgUserId := userId h2\<rparr>) h2))"

fun removeScreenShareLoop ::
  "platform \<Rightarrow> track \<Rightarrow> (ident \<times> addr) list \<Rightarrow> webRTCHandler \<Rightarrow> webRTCHandler" where
  "removeScreenShareLoop P t [] h = h"
| "removeScreenShareLoop P t ((uid, a) # es) h =
     removeScreenShareLoop P t es
       (if t \<in> set (senders (heap h ! a))
        then (case pc_removeTrack (heap h ! a) t of
                Inl e \<Rightarrow> consoleError ''WebRTC: Error removing screen share for'' [uid] e h
              | Inr pc1 \<Rightarrow>
                  (case renegotiate P uid a (setPc a pc1 h) of
                     Inl e \<Rightarrow>
                       consoleError ''WebRTC: Error removing screen share for'' [uid] e
                         (setPc a pc1 h)
                   | Inr h' \<Rightarrow> h'))
        else h)"

definition removeScreenShareTrack :: "platform \<Rightarrow> track \<Rightarrow> webRTCHandler \<Rightarrow> outcome" where
  "removeScreenShareTrack P t h =
     (let h1 = consoleLog ''WebRTC: Removing screen share track from all peers'' [] h;
          h2 = removeScreenShareLoop P t (peerConnections h1) h1
      in (None, sendSignal (emptySignal\<lparr>msgType := Some ''screen-share-stopped'',
                  msgUserId := userId h2\<rparr>) h2))"

definition updateLocalStream :: "track dlist option \<Rightarrow> webRTCHandler \<Rightarrow> webRTCHandler" where
  "updateLocalStream stream h = h\<lparr>localStream := stream\<rparr>"

text \<open>The loop of \<open>close\<close> over the entries of the map: \<open>pc.close()\<close> on each.\<close>

fun closeAll :: "(ident \<times> addr) list \<Rightarrow> rtcPeerConnection list \<Rightarrow> rtcPeerConnection list" where
  "closeAll [] hp = hp"
| "closeAll ((uid, a) # es) hp = closeAll es (hp[a := pc_close (hp ! a)])"

definition close :: "webRTCHandler \<Rightarrow> outcome" where
  "close h =
     (let h1 = consoleLog ''WebRTC: Closing all connections'' [] h;
          h2 = h1\<lparr>heap := closeAll (peerConnections h1) (heap h1)\<rparr>;
          h3 = h2\<lparr>peerConnections := []\<rparr>
      in (case ws h3 of
            None \<Rightarrow> (None, h3)
          | Some r \<Rightarrow>
              (let h4 = sendSignal (emptySignal\<lparr>msgType := Some ''leave'',
                                      msgUserId := userId h3\<rparr>) h3
               in (None, h4\<lparr>ws := None\<rparr>))))"

subsection \<open>The handlers as the event loop runs them\<close>

text \<open>
  \<open>ws.onmessage\<close> starts a handler for every message and does not wait for the handler
  of the message before. A handler runs without interruption up to its first \<open>await\<close>.
  Every promise the handlers await belongs to one of five methods of a peer connection,
  and the browser queues the calls of these methods per connection, in its operations
  chain: it runs them one at a time, in the order of the calls. When an operation has
  finished, the handler that awaits it runs on, again without interruption, to its next
  \<open>await\<close> or to its end.
\<close>

datatype browserOp =
    CreateOffer
  | CreateAnswer
  | SetLocalDescription sessionDescription
  | SetRemoteDescription sessionDescription
  | AddIceCandidate iceCandidate

text \<open>The \<open>await\<close> a handler is suspended at, with the local variables the rest of the
  handler uses: \<open>userId\<close> and \<open>offer\<close> in \<open>handleUserJoined\<close>, \<open>from\<close> and \<open>answer\<close> in
  \<open>handleOffer\<close>, \<open>from\<close> in \<open>handleAnswer\<close> and \<open>handleIceCandidate\<close>.\<close>

datatype awaiting =
    JoinedCreateOffer ident
  | JoinedSetLocal ident sessionDescription
  | OfferSetRemote ident
  | OfferCreateAnswer ident
  | OfferSetLocal ident sessionDescription
  | AnswerSetRemote ident
  | CandidateAdd ident

text \<open>The handler object together with the operations that are under way: for each the
  connection, the operation and the handler waiting for it, in the order of the calls.\<close>

record eventLoop =
  handler :: webRTCHandler
  chain :: "(addr \<times> browserOp \<times> awaiting) list"

text \<open>The \<open>catch\<close> block of the handler suspended at the given \<open>await\<close>.\<close>

fun catchError :: "awaiting \<Rightarrow> error \<Rightarrow> webRTCHandler \<Rightarrow> webRTCHandler" where
  "catchError (JoinedCreateOffer uid) e h =
     consoleError ''WebRTC: Error creating offer for'' [uid] e h"
| "catchError (JoinedSetLocal uid offer) e h =
     consoleError ''WebRTC: Error creating offer for'' [uid] e h"
| "catchError (OfferSetRemote sender) e h =
     consoleError ''WebRTC: Error handling offer from'' [sender] e h"
| "catchError (OfferCreateAnswer sender) e h =
     consoleError ''WebRTC: Error handling offer from'' [sender] e h"
| "catchError (OfferSetLocal sender answer) e h =
     consoleError ''WebRTC: Error handling offer from'' [sender] e h"
| "catchError (AnswerSetRemote sender) e h =
     consoleError ''WebRTC: Error setting remote description from'' [sender] e h"
| "catchError (CandidateAdd sender) e h =
     consoleError ''WebRTC: Error adding ICE candidate from'' [sender] e h"

text \<open>A handler calls a method of the connection at \<open>a\<close> and awaits the result. On a
  closed connection the promise is rejected at once; otherwise the operation joins the
  chain.\<close>

definition call :: "addr \<Rightarrow> browserOp \<Rightarrow> awaiting \<Rightarrow> eventLoop \<Rightarrow> eventLoop" where
  "call a op k st =
     (if signalingState (heap (handler st) ! a) = SIG_CLOSED
      then st\<lparr>handler := catchError k InvalidStateError (handler st)\<rparr>
      else st\<lparr>chain := chain st @ [(a, op, k)]\<rparr>)"

text \<open>The browser runs an operation on a connection: the new state of the connection, and
  the description \<open>createOffer\<close> and \<open>createAnswer\<close> resolve with.\<close>

fun exec :: "platform \<Rightarrow> browserOp \<Rightarrow> rtcPeerConnection \<Rightarrow>
    error + rtcPeerConnection \<times> sessionDescription option" where
  "exec P CreateOffer pc = map_sum id (\<lambda>d. (pc, Some d)) (pc_createOffer P pc)"
| "exec P CreateAnswer pc = map_sum id (\<lambda>d. (pc, Some d)) (pc_createAnswer P pc)"
| "exec P (SetLocalDescription d) pc =
     map_sum id (\<lambda>pc'. (pc', None)) (pc_setLocalDescription pc d)"
| "exec P (SetRemoteDescription d) pc =
     map_sum id (\<lambda>pc'. (pc', None)) (pc_setRemoteDescription P pc d)"
| "exec P (AddIceCandidate c) pc =
     map_sum id (\<lambda>pc'. (pc', None)) (pc_addIceCandidate P pc c)"

text \<open>The rest of a handler after the \<open>await\<close> it was suspended at, up to its next
  \<open>await\<close> or its end; \<open>a\<close> is the connection \<open>pc\<close> of the handler.\<close>

fun resume :: "awaiting \<Rightarrow> addr \<Rightarrow> sessionDescription option \<Rightarrow> eventLoop \<Rightarrow> eventLoop" where
  "resume (JoinedCreateOffer uid) a (Some offer) st =
     call a (SetLocalDescription offer) (JoinedSetLocal uid offer) st"
| "resume (JoinedSetLocal uid offer) a r st =
     st\<lparr>handler := sendSignal (emptySignal\<lparr>msgType := Some ''offer'', msgTo := uid,
                           msgSdp := Some offer\<rparr>) (handler st)\<rparr>"
| "resume (OfferSetRemote sender) a r st = call a CreateAnswer (OfferCreateAnswer sender) st"
| "resume (OfferCreateAnswer sender) a (Some answer) st =
     call a (SetLocalDescription answer) (OfferSetLocal sender answer) st"
| "resume (OfferSetLocal sender answer) a r st =
     st\<lparr>handler := sendSignal (emptySignal\<lparr>msgType := Some ''answer'', msgTo := sender,
                           msgSdp := Some answer\<rparr>) (handler st)\<rparr>"
| "resume k a r st = st"

text \<open>
  The browser has finished the oldest operation of the connection at \<open>a\<close>. The operation
  leaves the chain. If the connection was closed in the meantime, the promise is never
  settled and the handler never runs on. Otherwise the operation takes effect on the
  connection as it is now, and the handler runs on: into its \<open>catch\<close> block if the
  operation failed, after the \<open>await\<close> if it succeeded.
\<close>

definition complete :: "platform \<Rightarrow> addr \<Rightarrow> eventLoop \<Rightarrow> eventLoop" where
  "complete P a st =
     (case find (\<lambda>e. fst e = a) (chain st) of
        None \<Rightarrow> st
      | Some (b, op, k) \<Rightarrow>
          (let st1 = st\<lparr>chain := remove1 (b, op, k) (chain st)\<rparr>
           in if signalingState (heap (handler st1) ! a) = SIG_CLOSED then st1
              else (case exec P op (heap (handler st1) ! a) of
                      Inl e \<Rightarrow> st1\<lparr>handler := catchError k e (handler st1)\<rparr>
                    | Inr (pc', r) \<Rightarrow>
                        resume k a r (st1\<lparr>handler := setPc a pc' (handler st1)\<rparr>))))"

text \<open>The handlers up to their first \<open>await\<close>. An exception outside a \<open>try\<close> block
  ends the handler; the state is as the handler left it.\<close>

definition startUserJoined :: "signal \<Rightarrow> eventLoop \<Rightarrow> eventLoop" where
  "startUserJoined message st =
     (if msgUserId message = userId (handler st) then st
      else
        let h1 = consoleLog ''WebRTC: User joined'' [msgUserName message, msgUserId message]
                   (handler st);
            (a, h2) = createPeerConnection (msgUserId message) h1
        in (case addLocalStream a h2 of
              (Some e, h3) \<Rightarrow> st\<lparr>handler := h3\<rparr>
            | (None, h3) \<Rightarrow>
                call a CreateOffer (JoinedCreateOffer (msgUserId message)) (st\<lparr>handler := h3\<rparr>)))"

definition startOfferTry :: "signal \<Rightarrow> addr \<Rightarrow> eventLoop \<Rightarrow> eventLoop" where
  "startOfferTry message a st =
     (case newRTCSessionDescription (msgSdp message) of
        Inl e \<Rightarrow> st\<lparr>handler := catchError (OfferSetRemote (msgFrom message)) e (handler st)\<rparr>
      | Inr d \<Rightarrow> call a (SetRemoteDescription d) (OfferSetRemote (msgFrom message)) st)"

definition startOffer :: "signal \<Rightarrow> eventLoop \<Rightarrow> eventLoop" where
  "startOffer message st =
     (let h1 = consoleLog ''WebRTC: Received offer from'' [msgFrom message] (handler st)
      in (case map_of (peerConnections h1) (msgFrom message) of
            Some a \<Rightarrow> startOfferTry message a (st\<lparr>handler := h1\<rparr>)
          | None \<Rightarrow>
              (let (a, h2) = createPeerConnection (msgFrom message) h1
               in (case addLocalStream a h2 of
                     (Some err, h3) \<Rightarrow> st\<lparr>handler := h3\<rparr>
                   | (None, h3) \<Rightarrow> startOfferTry message a (st\<lparr>handler := h3\<rparr>)))))"

definition startAnswer :: "signal \<Rightarrow> eventLoop \<Rightarrow> eventLoop" where
  "startAnswer message st =
     (let h1 = consoleLog ''WebRTC: Received answer from'' [msgFrom message] (handler st)
      in (case map_of (peerConnections h1) (msgFrom message) of
            None \<Rightarrow> st\<lparr>handler := h1\<rparr>
          | Some a \<Rightarrow>
              (case newRTCSessionDescription (msgSdp message) of
                 Inl e \<Rightarrow>
                   st\<lparr>handler := catchError (AnswerSetRemote (msgFrom message)) e h1\<rparr>
               | Inr d \<Rightarrow>
                   call a (SetRemoteDescription d) (AnswerSetRemote (msgFrom message))
                     (st\<lparr>handler := h1\<rparr>))))"

definition startIceCandidate :: "signal \<Rightarrow> eventLoop \<Rightarrow> eventLoop" where
  "startIceCandidate message st =
     (case (map_of (peerConnections (handler st)) (msgFrom message), msgCandidate message) of
        (Some a, Some candidate) \<Rightarrow>
          (case newRTCIceCandidate candidate of
             Inl e \<Rightarrow>
               st\<lparr>handler := catchError (CandidateAdd (msgFrom message)) e (handler st)\<rparr>
           | Inr c \<Rightarrow> call a (AddIceCandidate c) (CandidateAdd (msgFrom message)) st)
      | _ \<Rightarrow> st)"

text \<open>\<open>ws.onmessage\<close> for one message: \<open>handleSignalingMessage\<close> up to the first
  \<open>await\<close> of the handler it dispatches to. \<open>handleUserLeft\<close> awaits nothing.\<close>

definition deliver :: "signal \<Rightarrow> eventLoop \<Rightarrow> eventLoop" where
  "deliver message st =
     (let st1 = st\<lparr>handler := consoleLog ''WebRTC: Received signaling message:''
                                 [msgType message] (handler st)\<rparr>
      in if msgType message = Some ''user-joined'' then startUserJoined message st1
         else if msgType message = Some ''user-left''
           then st1\<lparr>handler := handleUserLeft message (handler st1)\<rparr>
         else if msgType message = Some ''offer'' then startOffer message st1
         else if msgType message = Some ''answer'' then startAnswer message st1
         else if msgType message = Some ''ice-candidate'' then startIceCandidate message st1
         else st1)"

text \<open>
  What happens, in order: a message arrives, or the browser finishes the oldest
  operation of a connection. The moment at which the browser finishes an operation is
  not fixed: every list of events is a run, so that the runs include those of every
  browser, whether it finishes an operation before the next message arrives or after.
\<close>

datatype event = Deliver signal | Complete addr

fun run :: "platform \<Rightarrow> event list \<Rightarrow> eventLoop \<Rightarrow> eventLoop" where
  "run P [] st = st"
| "run P (Deliver m # es) st = run P es (deliver m st)"
| "run P (Complete a # es) st = run P es (complete P a st)"

subsection \<open>Derived notions used in the statements\<close>

text \<open>The connection object the map holds for a participant, if any.\<close>

definition connectionOf :: "webRTCHandler \<Rightarrow> ident \<Rightarrow> rtcPeerConnection option" where
  "connectionOf h uid = map_option (\<lambda>a. heap h ! a) (map_of (peerConnections h) uid)"

text \<open>Every message handed to the socket so far carries the handler's own id as sender.\<close>

definition stamped :: "webRTCHandler \<Rightarrow> bool" where
  "stamped h = list_all (\<lambda>m. msgFrom m = userId h) (sent h)"

text \<open>What the specification calls the set of participants that have joined and not yet
  left, computed from the events alone, starting from the set \<open>S\<close>.\<close>

fun spec_present :: "signal list \<Rightarrow> ident set \<Rightarrow> ident set" where
  "spec_present [] S = S"
| "spec_present (m # ms) S =
     spec_present ms
       (if msgType m = Some ''user-joined'' then insert (msgUserId m) S
        else if msgType m = Some ''user-left'' then S - {msgUserId m}
        else S)"

text \<open>The expression \<open>pc.setRemoteDescription(new RTCSessionDescription(sdp))\<close>.\<close>

definition applyRemote ::
  "platform \<Rightarrow> rtcPeerConnection \<Rightarrow> sessionDescription option \<Rightarrow> error + rtcPeerConnection" where
  "applyRemote P pc s =
     (case newRTCSessionDescription s of
        Inl e \<Rightarrow> Inl e
      | Inr d \<Rightarrow> pc_setRemoteDescription P pc d)"

text \<open>The expression \<open>pc.addIceCandidate(new RTCIceCandidate(candidate))\<close>.\<close>

definition applyCandidate ::
  "platform \<Rightarrow> rtcPeerConnection \<Rightarrow> iceCandidate \<Rightarrow> error + rtcPeerConnection" where
  "applyCandidate P pc candidate =
     (case newRTCIceCandidate candidate of
        Inl e \<Rightarrow> Inl e
      | Inr c \<Rightarrow> pc_addIceCandidate P pc c)"

text \<open>The tracks of the local stream, in the order \<open>getTracks\<close> lists them; none when
  there is no local stream.\<close>

definition localTracks :: "webRTCHandler \<Rightarrow> track list" where
  "localTracks h = (case localStream h of None \<Rightarrow> [] | Some s \<Rightarrow> list_of_dlist s)"

text \<open>A new connection for \<open>uid\<close> after the tracks \<open>ts\<close> were attached and a local offer
  was created and set.\<close>

definition offeredPc :: "platform \<Rightarrow> ident \<Rightarrow> track list \<Rightarrow> rtcPeerConnection" where
  "offeredPc P uid ts =
     (let pc0 = (newRTCPeerConnection uid)\<lparr>senders := ts\<rparr>
      in pc0\<lparr>signalingState := HAVE_LOCAL_OFFER,
             pendingLocalDescription := Some \<lparr>sdType = Offer, sdpText = offerText P pc0\<rparr>\<rparr>)"

text \<open>A connection in a state that admits a remote offer, after the offer \<open>d\<close> was
  applied and a local answer was created and set.\<close>

definition answeredPc ::
  "platform \<Rightarrow> rtcPeerConnection \<Rightarrow> sessionDescription \<Rightarrow> rtcPeerConnection" where
  "answeredPc P pc d =
     (let pc1 = pc\<lparr>signalingState := HAVE_REMOTE_OFFER, pendingRemoteDescription := Some d\<rparr>
      in pc1\<lparr>signalingState := STABLE,
             currentLocalDescription := Some \<lparr>sdType = Answer, sdpText = answerText P pc1\<rparr>,
             currentRemoteDescription := Some d,
             pendingLocalDescription := None,
             pendingRemoteDescription := None\<rparr>)"

text \<open>The candidates that wait in the chain for the connection at \<open>a\<close>, oldest first.\<close>

fun pendingCandidates :: "addr \<Rightarrow> (addr \<times> browserOp \<times> awaiting) list \<Rightarrow> iceCandidate list" where
  "pendingCandidates a [] = []"
| "pendingCandidates a ((b, AddIceCandidate c, k) # es) =
     (if b = a then c # pendingCandidates a es else pendingCandidates a es)"
| "pendingCandidates a (e # es) = pendingCandidates a es"

text \<open>The candidates the connection at \<open>a\<close> has accepted; none while no object lives at
  that address.\<close>

definition appliedCandidates :: "addr \<Rightarrow> webRTCHandler \<Rightarrow> iceCandidate list" where
  "appliedCandidates a h = (if a < length (heap h) then remoteCandidates (heap h ! a) else [])"


text \<open>The connection an inbound message is about: the one the map holds for the sender,
  or the one that will be created for it.\<close>

definition targetOf :: "signal \<Rightarrow> webRTCHandler \<Rightarrow> addr" where
  "targetOf m h =
     (if msgType m = Some ''user-joined'' then length (heap h)
      else (case map_of (peerConnections h) (msgFrom m) of
              Some a \<Rightarrow> a
            | None \<Rightarrow> length (heap h)))"

subsection \<open>Concrete inputs\<close>

text \<open>A browser that accepts every description and candidate, and one that accepts none.\<close>

definition acceptAll :: platform where
  "acceptAll = \<lparr>acceptsDescription = (\<lambda>d. True), acceptsCandidate = (\<lambda>c. True),
     offerText = (\<lambda>pc. ''v=0 offer''), answerText = (\<lambda>pc. ''v=0 answer'')\<rparr>"

definition rejectAll :: platform where
  "rejectAll = \<lparr>acceptsDescription = (\<lambda>d. False), acceptsCandidate = (\<lambda>c. False),
     offerText = (\<lambda>pc. ''v=0 offer''), answerText = (\<lambda>pc. ''v=0 answer'')\<rparr>"

text \<open>The handler of user \<open>u1\<close> with an open socket, no local stream and no connection.\<close>

definition handlerU1 :: webRTCHandler where
  "handlerU1 = \<lparr>meetingId = ''m1'', userId = Some ''u1'', userName = Some ''Alice'',
     localStream = None, peerConnections = [], ws = Some WS_OPEN, heap = [], sent = [],
     console = []\<rparr>"

text \<open>The same handler holding a new, untouched connection for \<open>u2\<close>.\<close>

definition connectedU2 :: webRTCHandler where
  "connectedU2 = handlerU1\<lparr>peerConnections := [(Some ''u2'', 0)],
     heap := [newRTCPeerConnection (Some ''u2'')]\<rparr>"

definition userJoinedU3 :: signal where
  "userJoinedU3 = emptySignal\<lparr>msgType := Some ''user-joined'', msgUserId := Some ''u3'',
     msgUserName := Some ''Carol''\<rparr>"

definition userLeftU2 :: signal where
  "userLeftU2 = emptySignal\<lparr>msgType := Some ''user-left'', msgUserId := Some ''u2''\<rparr>"

definition userJoinedU2 :: signal where
  "userJoinedU2 = emptySignal\<lparr>msgType := Some ''user-joined'', msgUserId := Some ''u2'',
     msgUserName := Some ''Bob''\<rparr>"

definition remoteOffer :: sessionDescription where
  "remoteOffer = \<lparr>sdType = Offer, sdpText = ''v=0 remote offer''\<rparr>"

definition remoteAnswer :: sessionDescription where
  "remoteAnswer = \<lparr>sdType = Answer, sdpText = ''v=0 remote answer''\<rparr>"

definition candidate0 :: iceCandidate where
  "candidate0 = \<lparr>candidateText = ''candidate:0 1 udp 1 192.0.2.1 9 typ host'',
     sdpMid = Some ''0'', sdpMLineIndex = Some 0\<rparr>"

definition offerFrom :: "string \<Rightarrow> sessionDescription \<Rightarrow> signal" where
  "offerFrom u d = emptySignal\<lparr>msgType := Some ''offer'', msgFrom := Some u,
     msgTo := Some ''u1'', msgSdp := Some d\<rparr>"

definition answerFrom :: "string \<Rightarrow> sessionDescription \<Rightarrow> signal" where
  "answerFrom u d = emptySignal\<lparr>msgType := Some ''answer'', msgFrom := Some u,
     msgTo := Some ''u1'', msgSdp := Some d\<rparr>"











section \<open>Basic facts about the helpers\<close>

lemma remoteDescription_simps [simp]:
  "remoteDescription (pc\<lparr>remoteCandidates := cs\<rparr>) = remoteDescription pc"
  "remoteDescription (pc\<lparr>senders := ts\<rparr>) = remoteDescription pc"
  "remoteDescription (pc\<lparr>signalingState := s\<rparr>) = remoteDescription pc"
  "remoteDescription (pc\<lparr>currentLocalDescription := l\<rparr>) = remoteDescription pc"
  "remoteDescription (pc\<lparr>pendingLocalDescription := l\<rparr>) = remoteDescription pc"
  "remoteDescription (pc\<lparr>pendingRemoteDescription := Some d\<rparr>) = Some d"
  "remoteDescription (pc\<lparr>pendingRemoteDescription := None\<rparr>) = currentRemoteDescription pc"
  "remoteDescription (newRTCPeerConnection uid) = None"
  by (simp_all add: remoteDescription_def newRTCPeerConnection_def split: option.splits)

lemma localDescription_simps [simp]:
  "localDescription (pc\<lparr>remoteCandidates := cs\<rparr>) = localDescription pc"
  "localDescription (pc\<lparr>senders := ts\<rparr>) = localDescription pc"
  "localDescription (pc\<lparr>signalingState := s\<rparr>) = localDescription pc"
  "localDescription (pc\<lparr>currentRemoteDescription := r\<rparr>) = localDescription pc"
  "localDescription (pc\<lparr>pendingRemoteDescription := r\<rparr>) = localDescription pc"
  "localDescription (pc\<lparr>pendingLocalDescription := Some d\<rparr>) = Some d"
  "localDescription (pc\<lparr>pendingLocalDescription := None\<rparr>) = currentLocalDescription pc"
  "localDescription (newRTCPeerConnection uid) = None"
  by (simp_all add: localDescription_def newRTCPeerConnection_def split: option.splits)

lemma consoleLog_fields [simp]:
  "userId (consoleLog t xs h) = userId h"
  "userName (consoleLog t xs h) = userName h"
  "localStream (consoleLog t xs h) = localStream h"
  "peerConnections (consoleLog t xs h) = peerConnections h"
  "ws (consoleLog t xs h) = ws h"
  "heap (consoleLog t xs h) = heap h"
  "sent (consoleLog t xs h) = sent h"
  "console (consoleLog t xs h) = console h @ [ConsoleLog t xs]"
  by (simp_all add: consoleLog_def)

lemma consoleError_fields [simp]:
  "userId (consoleError t xs e h) = userId h"
  "userName (consoleError t xs e h) = userName h"
  "localStream (consoleError t xs e h) = localStream h"
  "peerConnections (consoleError t xs e h) = peerConnections h"
  "ws (consoleError t xs e h) = ws h"
  "heap (consoleError t xs e h) = heap h"
  "sent (consoleError t xs e h) = sent h"
  "console (consoleError t xs e h) = console h @ [ConsoleError t xs e]"
  by (simp_all add: consoleError_def)

lemma setPc_fields [simp]:
  "userId (setPc a pc h) = userId h"
  "userName (setPc a pc h) = userName h"
  "localStream (setPc a pc h) = localStream h"
  "peerConnections (setPc a pc h) = peerConnections h"
  "ws (setPc a pc h) = ws h"
  "heap (setPc a pc h) = (heap h)[a := pc]"
  "sent (setPc a pc h) = sent h"
  "console (setPc a pc h) = console h"
  by (simp_all add: setPc_def)

lemma sendSignal_fields [simp]:
  "userId (sendSignal d h) = userId h"
  "userName (sendSignal d h) = userName h"
  "localStream (sendSignal d h) = localStream h"
  "peerConnections (sendSignal d h) = peerConnections h"
  "ws (sendSignal d h) = ws h"
  "heap (sendSignal d h) = heap h"
  "console (sendSignal d h) = console h"
  "sent (sendSignal d h) =
     (if ws h = Some WS_OPEN then sent h @ [d\<lparr>msgFrom := userId h\<rparr>] else sent h)"
  by (simp_all add: sendSignal_def)

lemma stamped_simps [simp]:
  "stamped (consoleLog t xs h) = stamped h"
  "stamped (consoleError t xs e h) = stamped h"
  "stamped (setPc a pc h) = stamped h"
  "stamped (h\<lparr>heap := hp\<rparr>) = stamped h"
  "stamped (h\<lparr>peerConnections := al\<rparr>) = stamped h"
  "stamped (h\<lparr>ws := w\<rparr>) = stamped h"
  "stamped (h\<lparr>localStream := s\<rparr>) = stamped h"
  by (simp_all add: stamped_def)

lemma stamped_sendSignal [simp]: "stamped (sendSignal d h) = stamped h"
  by (simp add: stamped_def)

lemma stamped_createPeerConnection:
  "createPeerConnection uid h = (a, h') \<Longrightarrow> stamped h' = stamped h"
  by (auto simp: createPeerConnection_def Let_def)

lemma stamped_addLocalStream:
  "addLocalStream a h = (e, h') \<Longrightarrow> stamped h' = stamped h"
  by (auto simp: addLocalStream_def split: option.splits prod.splits)

lemma stamped_handleUserJoined:
  "stamped (snd (handleUserJoined P m h)) = stamped h"
  by (auto simp: handleUserJoined_def Let_def split: prod.splits option.splits sum.splits
      dest!: stamped_createPeerConnection stamped_addLocalStream)

lemma stamped_handleUserLeft: "stamped (handleUserLeft m h) = stamped h"
  by (simp add: handleUserLeft_def Let_def split: option.splits)

lemma stamped_offerSteps: "stamped (snd (offerSteps P m a h)) = stamped h"
  by (simp add: offerSteps_def Let_def split: sum.splits)

lemma stamped_offerTry: "stamped (snd (offerTry P m a h)) = stamped h"
  using stamped_offerSteps [of P m a h]
  by (auto simp: offerTry_def split: prod.splits option.splits)

lemma stamped_handleOffer: "stamped (snd (handleOffer P m h)) = stamped h"
  by (auto simp: handleOffer_def Let_def stamped_offerTry split: prod.splits option.splits
      dest!: stamped_createPeerConnection stamped_addLocalStream)

lemma stamped_handleAnswer: "stamped (snd (handleAnswer P m h)) = stamped h"
  by (simp add: handleAnswer_def Let_def split: option.splits sum.splits)

lemma stamped_handleIceCandidate: "stamped (snd (handleIceCandidate P m h)) = stamped h"
  by (simp add: handleIceCandidate_def split: option.splits sum.splits)

lemma stamped_handleSignalingMessage:
  "stamped (snd (handleSignalingMessage P m h)) = stamped h"
  by (simp add: handleSignalingMessage_def Let_def stamped_handleUserJoined
      stamped_handleUserLeft stamped_handleOffer stamped_handleAnswer
      stamped_handleIceCandidate)

lemma stamped_onmessages: "stamped (onmessages P ms h) = stamped h"
  by (induction ms arbitrary: h) (simp_all add: stamped_handleSignalingMessage)

lemma stamped_renegotiate: "renegotiate P uid a h = Inr h' \<Longrightarrow> stamped h' = stamped h"
  by (auto simp: renegotiate_def split: sum.splits)

lemma stamped_addScreenShareLoop: "stamped (addScreenShareLoop P t es h) = stamped h"
  by (induction P t es h rule: addScreenShareLoop.induct)
     (auto split: sum.splits dest!: stamped_renegotiate)

lemma stamped_removeScreenShareLoop: "stamped (removeScreenShareLoop P t es h) = stamped h"
  by (induction P t es h rule: removeScreenShareLoop.induct)
     (auto split: sum.splits dest!: stamped_renegotiate)

lemma stamped_close: "stamped (snd (close h)) = stamped h"
  by (simp add: close_def Let_def split: option.splits)

lemma stamped_onicecandidate: "stamped (onicecandidate a c h) = stamped h"
  by (simp add: onicecandidate_def split: option.splits)


lemma stamped_onopen: "stamped (onopen h) = stamped h"
  by (simp add: onopen_def Let_def)

lemma stamped_notifyMediaStateChange: "stamped (notifyMediaStateChange x y h) = stamped h"
  by (simp add: notifyMediaStateChange_def)

lemma stamped_addScreenShareTrack: "stamped (snd (addScreenShareTrack P t h)) = stamped h"
  by (simp add: addScreenShareTrack_def Let_def stamped_addScreenShareLoop)

lemma stamped_removeScreenShareTrack: "stamped (snd (removeScreenShareTrack P t h)) = stamped h"
  by (simp add: removeScreenShareTrack_def Let_def stamped_removeScreenShareLoop)

lemma createPeerConnection_eq:
  "createPeerConnection uid h =
     (length (heap h), h\<lparr>heap := heap h @ [newRTCPeerConnection uid],
        peerConnections := AList.update uid (length (heap h)) (peerConnections h)\<rparr>)"
  by (simp add: createPeerConnection_def Let_def)

lemma addTracks_ok:
  "signalingState pc \<noteq> SIG_CLOSED \<Longrightarrow> distinct ts \<Longrightarrow> set ts \<inter> set (senders pc) = {}
     \<Longrightarrow> addTracks ts pc = (None, pc\<lparr>senders := senders pc @ ts\<rparr>)"
proof (induction ts arbitrary: pc)
  case Nil
  then show ?case by simp
next
  case (Cons t ts)
  then show ?case by (simp add: pc_addTrack_def)
qed

lemma addLocalStream_new:
  assumes hp: "heap h = hp @ [newRTCPeerConnection uid]"
  shows "addLocalStream (length hp) h =
     (None, h\<lparr>heap := hp @ [(newRTCPeerConnection uid)\<lparr>senders := localTracks h\<rparr>]\<rparr>)"
proof (cases "localStream h")
  case None
  have "(newRTCPeerConnection uid)\<lparr>senders := []\<rparr> = newRTCPeerConnection uid"
    by (simp add: newRTCPeerConnection_def)
  moreover have "h\<lparr>heap := heap h\<rparr> = h"
    by simp
  ultimately show ?thesis
    using None hp by (simp add: addLocalStream_def localTracks_def)
next
  case (Some s)
  have "addTracks (list_of_dlist s) (newRTCPeerConnection uid) =
      (None, (newRTCPeerConnection uid)\<lparr>senders := list_of_dlist s\<rparr>)"
    using addTracks_ok [of "newRTCPeerConnection uid" "list_of_dlist s"]
    by (simp add: newRTCPeerConnection_def)
  then show ?thesis
    using Some hp by (simp add: addLocalStream_def localTracks_def setPc_def)
qed

lemma handleUserJoined_result:
  assumes "msgUserId m \<noteq> userId h"
  shows "handleUserJoined P m h =
     (None, sendSignal (emptySignal\<lparr>msgType := Some ''offer'', msgTo := msgUserId m,
                msgSdp := localDescription (offeredPc P (msgUserId m) (localTracks h))\<rparr>)
        (h\<lparr>console := console h @
              [ConsoleLog ''WebRTC: User joined'' [msgUserName m, msgUserId m]],
           heap := heap h @ [offeredPc P (msgUserId m) (localTracks h)],
           peerConnections :=
             AList.update (msgUserId m) (length (heap h)) (peerConnections h)\<rparr>))"
proof -
  define h2 where "h2 = (consoleLog ''WebRTC: User joined'' [msgUserName m, msgUserId m] h)
      \<lparr>heap := heap h @ [newRTCPeerConnection (msgUserId m)],
        peerConnections := AList.update (msgUserId m) (length (heap h)) (peerConnections h)\<rparr>"
  define pc0 where "pc0 = (newRTCPeerConnection (msgUserId m))\<lparr>senders := localTracks h\<rparr>"
  define h3 where "h3 = h2\<lparr>heap := heap h @ [pc0]\<rparr>"
  have cp: "createPeerConnection (msgUserId m)
      (consoleLog ''WebRTC: User joined'' [msgUserName m, msgUserId m] h) = (length (heap h), h2)"
    by (simp add: createPeerConnection_eq h2_def)
  have "heap h2 = heap h @ [newRTCPeerConnection (msgUserId m)]"
    and "localTracks h2 = localTracks h"
    by (simp_all add: h2_def localTracks_def)
  then have al: "addLocalStream (length (heap h)) h2 = (None, h3)"
    using addLocalStream_new [of h2 "heap h" "msgUserId m"] by (simp add: h3_def pc0_def)
  have at: "heap h3 ! length (heap h) = pc0"
    by (simp add: h3_def)
  have st: "signalingState pc0 = STABLE"
    by (simp add: pc0_def newRTCPeerConnection_def)
  have co: "pc_createOffer P pc0 = Inr \<lparr>sdType = Offer, sdpText = offerText P pc0\<rparr>"
    by (simp add: pc_createOffer_def st)
  have sl: "pc_setLocalDescription pc0 \<lparr>sdType = Offer, sdpText = offerText P pc0\<rparr> =
      Inr (offeredPc P (msgUserId m) (localTracks h))"
    by (simp add: pc_setLocalDescription_def offeredPc_def Let_def pc0_def
        newRTCPeerConnection_def)
  have fin: "setPc (length (heap h)) (offeredPc P (msgUserId m) (localTracks h)) h3 =
      h\<lparr>console := console h @
              [ConsoleLog ''WebRTC: User joined'' [msgUserName m, msgUserId m]],
           heap := heap h @ [offeredPc P (msgUserId m) (localTracks h)],
           peerConnections :=
             AList.update (msgUserId m) (length (heap h)) (peerConnections h)\<rparr>"
    by (simp add: setPc_def h3_def h2_def consoleLog_def)
  have ld: "localDescription (offeredPc P (msgUserId m) (localTracks h)) =
      Some \<lparr>sdType = Offer, sdpText = offerText P pc0\<rparr>"
    by (simp add: offeredPc_def Let_def pc0_def localDescription_def)
  show ?thesis
    using assms by (simp add: handleUserJoined_def Let_def cp al at co sl fin ld)
qed

lemma handleUserJoined_map:
  "msgUserId m \<noteq> userId h \<Longrightarrow>
     peerConnections (snd (handleUserJoined P m h)) =
       AList.update (msgUserId m) (length (heap h)) (peerConnections h)"
  by (simp add: handleUserJoined_result)

lemma handleUserLeft_map:
  "peerConnections (handleUserLeft m h) = AList.delete (msgUserId m) (peerConnections h)"
  by (auto simp: handleUserLeft_def Let_def map_of_eq_None_iff split: option.splits)

lemma handleUserJoined_userId: "userId (snd (handleUserJoined P m h)) = userId h"
proof (cases "msgUserId m = userId h")
  case True
  then show ?thesis by (simp add: handleUserJoined_def)
next
  case False
  then show ?thesis by (simp add: handleUserJoined_result)
qed

lemma handleUserLeft_userId: "userId (handleUserLeft m h) = userId h"
  by (simp add: handleUserLeft_def Let_def split: option.splits)

lemma connectionOf_simps [simp]:
  "connectionOf (consoleLog t xs h) = connectionOf h"
  "connectionOf (consoleError t xs e h) = connectionOf h"
  "connectionOf (sendSignal d h) = connectionOf h"
  "connectionOf (h\<lparr>console := c\<rparr>) = connectionOf h"
  by (simp_all add: connectionOf_def fun_eq_iff)

lemma update_drops_old:
  "map_of al k = Some a \<Longrightarrow> distinct (map snd al) \<Longrightarrow> v \<noteq> a \<Longrightarrow>
     a \<notin> snd ` set (AList.update k v al)"
proof (induction al)
  case Nil
  then show ?case by simp
next
  case (Cons p ps)
  then show ?case
  proof (cases p)
    case (Pair k' a')
    show ?thesis
    proof (cases "k' = k")
      case True
      with Pair Cons.prems show ?thesis by (auto simp: image_iff)
    next
      case False
      with Pair Cons.prems have "map_of ps k = Some a" by simp
      then have "(k, a) \<in> set ps" by (rule map_of_SomeD)
      then have "a \<in> snd ` set ps" by force
      with Pair Cons.prems have "a' \<noteq> a" by auto
      moreover have "a \<notin> snd ` set (AList.update k v ps)"
        using Cons.IH \<open>map_of ps k = Some a\<close> Cons.prems by simp
      ultimately show ?thesis using Pair False by auto
    qed
  qed
qed

lemma handleOffer_known:
  "map_of (peerConnections h) (msgFrom m) = Some a \<Longrightarrow>
     handleOffer P m h =
       offerTry P m a (consoleLog ''WebRTC: Received offer from'' [msgFrom m] h)"
  by (simp add: handleOffer_def Let_def)

lemma handleOffer_unknown:
  assumes "map_of (peerConnections h) (msgFrom m) = None"
  shows "handleOffer P m h =
     offerTry P m (length (heap h))
       (h\<lparr>console := console h @ [ConsoleLog ''WebRTC: Received offer from'' [msgFrom m]],
          heap := heap h @ [(newRTCPeerConnection (msgFrom m))\<lparr>senders := localTracks h\<rparr>],
          peerConnections :=
            AList.update (msgFrom m) (length (heap h)) (peerConnections h)\<rparr>)"
proof -
  define h2 where "h2 = (consoleLog ''WebRTC: Received offer from'' [msgFrom m] h)
      \<lparr>heap := heap h @ [newRTCPeerConnection (msgFrom m)],
        peerConnections := AList.update (msgFrom m) (length (heap h)) (peerConnections h)\<rparr>"
  define h3 where "h3 = h2\<lparr>heap := heap h @
      [(newRTCPeerConnection (msgFrom m))\<lparr>senders := localTracks h\<rparr>]\<rparr>"
  have cp: "createPeerConnection (msgFrom m)
      (consoleLog ''WebRTC: Received offer from'' [msgFrom m] h) = (length (heap h), h2)"
    by (simp add: createPeerConnection_eq h2_def)
  have "heap h2 = heap h @ [newRTCPeerConnection (msgFrom m)]"
    and "localTracks h2 = localTracks h"
    by (simp_all add: h2_def localTracks_def)
  then have al: "addLocalStream (length (heap h)) h2 = (None, h3)"
    using addLocalStream_new [of h2 "heap h" "msgFrom m"] by (simp add: h3_def)
  have fin: "h3 = h\<lparr>console := console h @ [ConsoleLog ''WebRTC: Received offer from'' [msgFrom m]],
          heap := heap h @ [(newRTCPeerConnection (msgFrom m))\<lparr>senders := localTracks h\<rparr>],
          peerConnections :=
            AList.update (msgFrom m) (length (heap h)) (peerConnections h)\<rparr>"
    by (simp add: h3_def h2_def consoleLog_def)
  show ?thesis
    using assms by (simp add: handleOffer_def Let_def cp al fin)
qed

lemma offerTry_fail:
  "applyRemote P (heap h ! a) (msgSdp m) = Inl e \<Longrightarrow>
     offerTry P m a h =
       (None, consoleError ''WebRTC: Error handling offer from'' [msgFrom m] e h)"
  by (auto simp: offerTry_def offerSteps_def applyRemote_def split: sum.splits)

lemma offerTry_offer_ok:
  assumes "msgSdp m = Some d" and "sdType d = Offer" and "acceptsDescription P d"
    and "signalingState (heap h ! a) = STABLE \<or> signalingState (heap h ! a) = HAVE_REMOTE_OFFER"
    and "a < length (heap h)"
  shows "offerTry P m a h =
     (None, sendSignal (emptySignal\<lparr>msgType := Some ''answer'', msgTo := msgFrom m,
                msgSdp := localDescription (answeredPc P (heap h ! a) d)\<rparr>)
        (setPc a (answeredPc P (heap h ! a) d) h))"
proof -
  have r: "pc_setRemoteDescription P (heap h ! a) d =
      Inr ((heap h ! a)\<lparr>signalingState := HAVE_REMOTE_OFFER, pendingRemoteDescription := Some d\<rparr>)"
    using assms(2,3,4) by (auto simp: pc_setRemoteDescription_def)
  show ?thesis
    using assms(1,5)
    by (simp add: offerTry_def offerSteps_def newRTCSessionDescription_def r
        pc_createAnswer_def pc_setLocalDescription_def Let_def answeredPc_def)
       (simp add: setPc_def sendSignal_def)
qed

lemma applyRemote_senders:
  "applyRemote P (pc\<lparr>senders := ts\<rparr>) s = Inl e \<longleftrightarrow> applyRemote P pc s = Inl e"
  by (auto simp: applyRemote_def newRTCSessionDescription_def pc_setRemoteDescription_def
      split: option.splits sdpType.splits if_splits)


section \<open>Basic facts about the event loop\<close>

text \<open>
  The candidates of a connection are touched in three places only: \<open>handleIceCandidate\<close>
  puts a candidate at the end of the chain, the browser takes the oldest operation of a
  connection from the chain, and \<open>addIceCandidate\<close> appends the candidate to those the
  connection has accepted. Hence an arrival or a completion keeps the order of the
  candidates, whatever else happens in between.
\<close>

lemma catchError_fields [simp]:
  "userId (catchError k e h) = userId h"
  "localStream (catchError k e h) = localStream h"
  "peerConnections (catchError k e h) = peerConnections h"
  "ws (catchError k e h) = ws h"
  "heap (catchError k e h) = heap h"
  "sent (catchError k e h) = sent h"
  by (cases k; simp)+

lemma call_fields [simp]:
  "heap (handler (call a op k st)) = heap (handler st)"
  "peerConnections (handler (call a op k st)) = peerConnections (handler st)"
  "sent (handler (call a op k st)) = sent (handler st)"
  "userId (handler (call a op k st)) = userId (handler st)"
  by (simp_all add: call_def)

lemma call_open:
  "signalingState (heap (handler st) ! a) \<noteq> SIG_CLOSED \<Longrightarrow>
     call a op k st = st\<lparr>chain := chain st @ [(a, op, k)]\<rparr>"
  by (simp add: call_def)

lemma pendingCandidates_append [simp]:
  "pendingCandidates a (xs @ ys) = pendingCandidates a xs @ pendingCandidates a ys"
  by (induction a xs rule: pendingCandidates.induct) simp_all

lemma pendingCandidates_call:
  "pendingCandidates a (chain (call b op k st)) =
     pendingCandidates a (chain st) @
       (case op of
          AddIceCandidate c \<Rightarrow>
            if b = a \<and> signalingState (heap (handler st) ! b) \<noteq> SIG_CLOSED then [c] else []
        | _ \<Rightarrow> [])"
  by (cases op) (simp_all add: call_def)

lemma appliedCandidates_simps [simp]:
  "appliedCandidates a (consoleLog t xs h) = appliedCandidates a h"
  "appliedCandidates a (consoleError t xs e h) = appliedCandidates a h"
  "appliedCandidates a (sendSignal d h) = appliedCandidates a h"
  "appliedCandidates a (catchError k e h) = appliedCandidates a h"
  "appliedCandidates a (h\<lparr>peerConnections := al\<rparr>) = appliedCandidates a h"
  "appliedCandidates a (handler (call b op k st)) = appliedCandidates a (handler st)"
  by (simp_all add: appliedCandidates_def)


lemma appliedCandidates_createPeerConnection:
  "appliedCandidates a (snd (createPeerConnection uid h)) = appliedCandidates a h"
  by (simp add: appliedCandidates_def createPeerConnection_eq nth_append
      newRTCPeerConnection_def)

lemma addTracks_remoteCandidates:
  "addTracks ts pc = (e, pc') \<Longrightarrow> remoteCandidates pc' = remoteCandidates pc"
proof (induction ts arbitrary: pc)
  case Nil
  then show ?case by simp
next
  case (Cons t ts)
  then show ?case
    by (fastforce simp: pc_addTrack_def split: if_splits)
qed

lemma appliedCandidates_setPc_same:
  "remoteCandidates pc' = remoteCandidates (heap h ! b) \<Longrightarrow>
     appliedCandidates a (setPc b pc' h) = appliedCandidates a h"
  by (cases "a = b") (simp_all add: appliedCandidates_def)

lemma appliedCandidates_addLocalStream:
  "addLocalStream b h = (e, h') \<Longrightarrow> appliedCandidates a h' = appliedCandidates a h"
  by (auto simp: addLocalStream_def appliedCandidates_setPc_same
      split: option.splits prod.splits dest: addTracks_remoteCandidates)

lemma appliedCandidates_handleUserLeft [simp]:
  "appliedCandidates a (handleUserLeft m h) = appliedCandidates a h"
proof (cases "map_of (peerConnections h) (msgUserId m)")
  case None
  then show ?thesis by (simp add: handleUserLeft_def Let_def)
next
  case (Some b)
  let ?h1 = "consoleLog ''WebRTC: User left'' [msgUserId m] h"
  have "appliedCandidates a (setPc b (pc_close (heap ?h1 ! b)) ?h1) = appliedCandidates a ?h1"
    by (rule appliedCandidates_setPc_same) (simp add: pc_close_def)
  then show ?thesis
    using Some by (simp add: handleUserLeft_def Let_def)
qed


lemma resume_frame [simp]:
  "appliedCandidates a (handler (resume k b r st)) = appliedCandidates a (handler st)"
  "pendingCandidates a (chain (resume k b r st)) = pendingCandidates a (chain st)"
  by (cases "(k, b, r, st)" rule: resume.cases; simp add: pendingCandidates_call)+




lemma startUserJoined_frame [simp]:
  "appliedCandidates a (handler (startUserJoined m st)) = appliedCandidates a (handler st)"
  "pendingCandidates a (chain (startUserJoined m st)) = pendingCandidates a (chain st)"
  using appliedCandidates_createPeerConnection [of a "msgUserId m"
      "consoleLog ''WebRTC: User joined'' [msgUserName m, msgUserId m] (handler st)"]
  by (auto simp: startUserJoined_def Let_def pendingCandidates_call
      split: prod.splits option.splits dest!: appliedCandidates_addLocalStream [where a = a])

lemma startOfferTry_frame [simp]:
  "appliedCandidates a (handler (startOfferTry m b st)) = appliedCandidates a (handler st)"
  "pendingCandidates a (chain (startOfferTry m b st)) = pendingCandidates a (chain st)"
  by (simp_all add: startOfferTry_def pendingCandidates_call split: sum.splits)

lemma startOffer_frame [simp]:
  "appliedCandidates a (handler (startOffer m st)) = appliedCandidates a (handler st)"
  "pendingCandidates a (chain (startOffer m st)) = pendingCandidates a (chain st)"
  using appliedCandidates_createPeerConnection [of a "msgFrom m"
      "consoleLog ''WebRTC: Received offer from'' [msgFrom m] (handler st)"]
  by (auto simp: startOffer_def Let_def
      split: prod.splits option.splits dest!: appliedCandidates_addLocalStream [where a = a])

lemma startAnswer_frame [simp]:
  "appliedCandidates a (handler (startAnswer m st)) = appliedCandidates a (handler st)"
  "pendingCandidates a (chain (startAnswer m st)) = pendingCandidates a (chain st)"
  by (simp_all add: startAnswer_def Let_def pendingCandidates_call
      split: option.splits sum.splits)





text \<open>
  When no operation is under way as a message arrives and the browser finishes the
  operations of its handler before the next message arrives, the event loop does what
  the handler does as one function: a handler awaits at most three operations, all on
  the one connection the message is about.
\<close>

lemma complete_nil [simp]: "chain st = [] \<Longrightarrow> complete P a st = st"
  by (simp add: complete_def)

lemma exec_open:
  "exec P op pc = Inr (pc', r) \<Longrightarrow> signalingState pc \<noteq> SIG_CLOSED \<Longrightarrow>
     signalingState pc' \<noteq> SIG_CLOSED"
  by (cases op)
     (auto simp: pc_createOffer_def pc_createAnswer_def pc_setLocalDescription_def
        pc_setRemoteDescription_def pc_addIceCandidate_def rollback_def
        split: if_splits sdpType.splits)

lemma setPc_open:
  "signalingState (heap h ! a) \<noteq> SIG_CLOSED \<Longrightarrow> signalingState pc' \<noteq> SIG_CLOSED \<Longrightarrow>
     signalingState (heap (setPc a pc' h) ! a) \<noteq> SIG_CLOSED"
  by (cases "a < length (heap h)") (simp_all add: list_update_beyond)

lemma closed_rejects:
  "signalingState pc = SIG_CLOSED \<Longrightarrow> pc_setRemoteDescription P pc d = Inl InvalidStateError"
  "signalingState pc = SIG_CLOSED \<Longrightarrow> pc_addIceCandidate P pc c = Inl InvalidStateError"
  by (simp_all add: pc_setRemoteDescription_def pc_addIceCandidate_def split: sdpType.splits)

lemma complete_single:
  assumes "chain st = [(a, op, k)]" and "signalingState (heap (handler st) ! a) \<noteq> SIG_CLOSED"
  shows "complete P a st =
     (case exec P op (heap (handler st) ! a) of
        Inl e \<Rightarrow> st\<lparr>chain := [], handler := catchError k e (handler st)\<rparr>
      | Inr (pc', r) \<Rightarrow> resume k a r (st\<lparr>chain := [], handler := setPc a pc' (handler st)\<rparr>))"
  using assms by (simp add: complete_def split: sum.splits)

lemma seq_ice:
  assumes "chain st = []"
    and "map_of (peerConnections (handler st)) (msgFrom m) = Some a"
  shows "complete P a (startIceCandidate m st) =
     st\<lparr>handler := snd (handleIceCandidate P m (handler st))\<rparr>"
proof (cases "msgCandidate m")
  case None
  then show ?thesis using assms by (simp add: startIceCandidate_def handleIceCandidate_def)
next
  case (Some c0)
  show ?thesis
  proof (cases "newRTCIceCandidate c0")
    case (Inl e)
    then show ?thesis
      using assms Some by (simp add: startIceCandidate_def handleIceCandidate_def)
  next
    case (Inr c)
    show ?thesis
    proof (cases "signalingState (heap (handler st) ! a) = SIG_CLOSED")
      case True
      then show ?thesis
        using assms Some Inr
        by (simp add: startIceCandidate_def handleIceCandidate_def call_def closed_rejects)
    next
      case False
      have "chain (st\<lparr>chain := [(a, AddIceCandidate c, CandidateAdd (msgFrom m))]\<rparr>) =
          [(a, AddIceCandidate c, CandidateAdd (msgFrom m))]" by simp
      from complete_single [OF this, of P] False show ?thesis
        using assms Some Inr
        by (auto simp: startIceCandidate_def handleIceCandidate_def call_def
            split: sum.splits)
    qed
  qed
qed

lemma seq_answer:
  assumes "chain st = []"
    and "map_of (peerConnections (handler st)) (msgFrom m) = Some a"
  shows "complete P a (startAnswer m st) =
     st\<lparr>handler := snd (handleAnswer P m (handler st))\<rparr>"
proof (cases "newRTCSessionDescription (msgSdp m)")
  case (Inl e)
  then show ?thesis
    using assms by (simp add: startAnswer_def handleAnswer_def Let_def)
next
  case (Inr d)
  let ?h1 = "consoleLog ''WebRTC: Received answer from'' [msgFrom m] (handler st)"
  show ?thesis
  proof (cases "signalingState (heap (handler st) ! a) = SIG_CLOSED")
    case True
    then show ?thesis
      using assms Inr
      by (simp add: startAnswer_def handleAnswer_def Let_def call_def closed_rejects)
  next
    case False
    have "chain (st\<lparr>handler := ?h1,
          chain := [(a, SetRemoteDescription d, AnswerSetRemote (msgFrom m))]\<rparr>) =
          [(a, SetRemoteDescription d, AnswerSetRemote (msgFrom m))]" by simp
    from complete_single [OF this, of P] False show ?thesis
      using assms Inr
      by (auto simp: startAnswer_def handleAnswer_def Let_def call_def split: sum.splits)
  qed
qed


lemma setPc_same [simp]: "setPc a (heap h ! a) h = h"
  by (simp add: setPc_def)

lemma seq_offerTry:
  assumes "chain st = []"
  shows "complete P a (complete P a (complete P a (startOfferTry m a st))) =
     st\<lparr>handler := snd (offerTry P m a (handler st))\<rparr>"
proof (cases "newRTCSessionDescription (msgSdp m)")
  case (Inl e)
  then show ?thesis
    using assms by (simp add: startOfferTry_def offerTry_def offerSteps_def)
next
  case (Inr d)
  let ?h = "handler st"
  let ?k = "msgFrom m"
  show ?thesis
  proof (cases "signalingState (heap ?h ! a) = SIG_CLOSED")
    case True
    then show ?thesis
      using assms Inr
      by (simp add: startOfferTry_def offerTry_def offerSteps_def call_def closed_rejects)
  next
    case op: False
    have s0: "startOfferTry m a st = st\<lparr>chain := [(a, SetRemoteDescription d, OfferSetRemote ?k)]\<rparr>"
      using assms Inr op by (simp add: startOfferTry_def call_def)
    show ?thesis
    proof (cases "pc_setRemoteDescription P (heap ?h ! a) d")
      case (Inl e)
      then show ?thesis
        using assms Inr op
        by (simp add: s0 complete_single offerTry_def offerSteps_def)
    next
      case r1: (Inr pc1)
      let ?h1 = "setPc a pc1 ?h"
      have "exec P (SetRemoteDescription d) (heap ?h ! a) = Inr (pc1, None)"
        using r1 by simp
      from exec_open [OF this op] have op1: "signalingState (heap ?h1 ! a) \<noteq> SIG_CLOSED"
        using op by (intro setPc_open)
      have s1: "complete P a (startOfferTry m a st) =
          st\<lparr>chain := [(a, CreateAnswer, OfferCreateAnswer ?k)], handler := ?h1\<rparr>"
        using op r1 op1 by (simp add: s0 complete_single call_def)
      show ?thesis
      proof (cases "pc_createAnswer P (heap ?h1 ! a)")
        case (Inl e)
        then show ?thesis
          using assms Inr r1 op1
          by (simp add: s1 complete_single offerTry_def offerSteps_def Let_def)
      next
        case r2: (Inr answer)
        have s2: "complete P a (complete P a (startOfferTry m a st)) =
            st\<lparr>chain := [(a, SetLocalDescription answer, OfferSetLocal ?k answer)],
               handler := ?h1\<rparr>"
        proof -
          have same: "setPc a ((heap ?h)[a := pc1] ! a) ?h1 = ?h1"
            using setPc_same [of a ?h1] by simp
          show ?thesis
            using op1 r2 by (simp add: s1 complete_single call_def same)
        qed
        show ?thesis
          using assms Inr r1 r2 op1
          by (simp add: s2 complete_single offerTry_def offerSteps_def Let_def
              split: sum.splits)
      qed
    qed
  qed
qed

lemma seq_offer:
  assumes "chain st = []" and that: "msgType m \<noteq> Some ''user-joined''"
  shows "complete P (targetOf m (handler st)) (complete P (targetOf m (handler st))
           (complete P (targetOf m (handler st)) (startOffer m st))) =
     st\<lparr>handler := snd (handleOffer P m (handler st))\<rparr>"
proof (cases "map_of (peerConnections (handler st)) (msgFrom m)")
  case (Some a)
  let ?st1 = "st\<lparr>handler := consoleLog ''WebRTC: Received offer from'' [msgFrom m] (handler st)\<rparr>"
  have "chain ?st1 = []" using assms(1) by simp
  from seq_offerTry [OF this, of P a m] show ?thesis
    using Some that by (simp add: startOffer_def handleOffer_known targetOf_def Let_def)
next
  case None
  let ?a = "length (heap (handler st))"
  let ?h3 = "(handler st)\<lparr>console := console (handler st) @
          [ConsoleLog ''WebRTC: Received offer from'' [msgFrom m]],
        heap := heap (handler st) @
          [(newRTCPeerConnection (msgFrom m))\<lparr>senders := localTracks (handler st)\<rparr>],
        peerConnections :=
          AList.update (msgFrom m) ?a (peerConnections (handler st))\<rparr>"
  let ?h1 = "consoleLog ''WebRTC: Received offer from'' [msgFrom m] (handler st)"
  have cp: "createPeerConnection (msgFrom m) ?h1 =
      (?a, ?h1\<lparr>heap := heap (handler st) @ [newRTCPeerConnection (msgFrom m)],
        peerConnections := AList.update (msgFrom m) ?a (peerConnections (handler st))\<rparr>)"
    by (simp add: createPeerConnection_eq)
  have al: "addLocalStream ?a (?h1\<lparr>heap := heap (handler st) @ [newRTCPeerConnection (msgFrom m)],
        peerConnections := AList.update (msgFrom m) ?a (peerConnections (handler st))\<rparr>) =
      (None, ?h3)"
    using addLocalStream_new [of "?h1\<lparr>heap := heap (handler st) @ [newRTCPeerConnection (msgFrom m)],
        peerConnections := AList.update (msgFrom m) ?a (peerConnections (handler st))\<rparr>"
        "heap (handler st)" "msgFrom m"]
    by (simp add: localTracks_def consoleLog_def)
  have so: "startOffer m st = startOfferTry m ?a (st\<lparr>handler := ?h3\<rparr>)"
    using None by (simp add: startOffer_def Let_def cp al)
  have "chain (st\<lparr>handler := ?h3\<rparr>) = []" using assms(1) by simp
  from seq_offerTry [OF this, of P ?a m] show ?thesis
    using None that by (simp add: so handleOffer_unknown targetOf_def)
qed


lemma complete_only:
  assumes "signalingState (heap h ! a) \<noteq> SIG_CLOSED"
  shows "complete P a (st\<lparr>handler := h, chain := [(a, op, k)]\<rparr>) =
       (case exec P op (heap h ! a) of
          Inl e \<Rightarrow> st\<lparr>handler := catchError k e h, chain := []\<rparr>
        | Inr (pc', r) \<Rightarrow> resume k a r (st\<lparr>handler := setPc a pc' h, chain := []\<rparr>))"
proof (cases "exec P op (heap h ! a)")
  case (Inl e)
  then show ?thesis using assms by (simp add: complete_def Let_def)
next
  case (Inr res)
  obtain pc' r where "res = (pc', r)" by (cases res)
  then show ?thesis
    using assms Inr
    by (simp add: complete_def Let_def) (rule arg_cong [where f = "resume k a r"], simp)
qed

lemma seq_joined:
  assumes "chain st = []"
  shows "complete P (length (heap (handler st))) (complete P (length (heap (handler st)))
           (startUserJoined m st)) =
     st\<lparr>handler := snd (handleUserJoined P m (handler st))\<rparr>"
proof (cases "msgUserId m = userId (handler st)")
  case True
  then show ?thesis using assms by (simp add: startUserJoined_def handleUserJoined_def)
next
  case False
  let ?h = "handler st"
  let ?a = "length (heap ?h)"
  let ?h1 = "consoleLog ''WebRTC: User joined'' [msgUserName m, msgUserId m] ?h"
  let ?h2 = "?h1\<lparr>heap := heap ?h @ [newRTCPeerConnection (msgUserId m)],
        peerConnections := AList.update (msgUserId m) ?a (peerConnections ?h)\<rparr>"
  let ?pc0 = "(newRTCPeerConnection (msgUserId m))\<lparr>senders := localTracks ?h\<rparr>"
  let ?offer = "\<lparr>sdType = Offer, sdpText = offerText P ?pc0\<rparr>"
  let ?k1 = "JoinedCreateOffer (msgUserId m)"
  let ?k2 = "JoinedSetLocal (msgUserId m) ?offer"
  define h3 where "h3 = ?h2\<lparr>heap := heap ?h @ [?pc0]\<rparr>"
  have cp: "createPeerConnection (msgUserId m) ?h1 = (?a, ?h2)"
    by (simp add: createPeerConnection_eq)
  have al: "addLocalStream ?a ?h2 = (None, h3)"
    using addLocalStream_new [of ?h2 "heap ?h" "msgUserId m"]
    by (simp add: localTracks_def h3_def)
  have at: "heap h3 ! ?a = ?pc0" by (simp add: h3_def)
  have st0: "signalingState ?pc0 = STABLE" by (simp add: newRTCPeerConnection_def)
  have op: "signalingState (heap h3 ! ?a) \<noteq> SIG_CLOSED" by (simp add: at st0)
  have s0: "startUserJoined m st = st\<lparr>handler := h3, chain := [(?a, CreateOffer, ?k1)]\<rparr>"
    using False assms by (simp add: startUserJoined_def Let_def cp al call_def st0 at)
  have co: "exec P CreateOffer (heap h3 ! ?a) = Inr (?pc0, Some ?offer)"
    by (simp add: at pc_createOffer_def st0)
  have sl: "exec P (SetLocalDescription ?offer) (heap h3 ! ?a) =
      Inr (offeredPc P (msgUserId m) (localTracks ?h), None)"
    by (simp add: at pc_setLocalDescription_def offeredPc_def Let_def st0)
  have same: "setPc ?a ?pc0 h3 = h3"
    using setPc_same [of ?a h3] by (simp only: at)
  have s1: "complete P ?a (startUserJoined m st) =
      st\<lparr>handler := h3, chain := [(?a, SetLocalDescription ?offer, ?k2)]\<rparr>"
    unfolding s0 complete_only [OF op] co using op by (simp add: same call_def)
  have fin: "setPc ?a (offeredPc P (msgUserId m) (localTracks ?h)) h3 =
      ?h\<lparr>console := console ?h @
              [ConsoleLog ''WebRTC: User joined'' [msgUserName m, msgUserId m]],
           heap := heap ?h @ [offeredPc P (msgUserId m) (localTracks ?h)],
           peerConnections :=
             AList.update (msgUserId m) ?a (peerConnections ?h)\<rparr>"
    by (simp add: setPc_def consoleLog_def h3_def)
  have ld: "localDescription (offeredPc P (msgUserId m) (localTracks ?h)) = Some ?offer"
    by (simp add: offeredPc_def Let_def)
  show ?thesis
    unfolding s1 complete_only [OF op] sl
    using assms by (simp add: fin ld handleUserJoined_result [OF False])
qed

lemma targetOf_consoleLog [simp]: "targetOf m (consoleLog t xs h) = targetOf m h"
  by (simp add: targetOf_def split: option.splits)

lemma sequential_agreement:
  assumes "chain st = []"
  shows "run P [Deliver m, Complete (targetOf m (handler st)),
                Complete (targetOf m (handler st)), Complete (targetOf m (handler st))] st =
     st\<lparr>handler := snd (handleSignalingMessage P m (handler st))\<rparr>"
proof -
  let ?st1 = "st\<lparr>handler := consoleLog ''WebRTC: Received signaling message:'' [msgType m]
                            (handler st)\<rparr>"
  have c: "chain ?st1 = []" using assms by simp
  consider (joined) "msgType m = Some ''user-joined''"
    | (left) "msgType m = Some ''user-left''"
    | (offer) "msgType m = Some ''offer''"
    | (answer) "msgType m = Some ''answer''"
    | (ice) "msgType m = Some ''ice-candidate''"
    | (other) "msgType m \<noteq> Some ''user-joined''" "msgType m \<noteq> Some ''user-left''"
        "msgType m \<noteq> Some ''offer''" "msgType m \<noteq> Some ''answer''"
        "msgType m \<noteq> Some ''ice-candidate''"
    by blast
  then show ?thesis
  proof cases
    case joined
    have ch: "chain (complete P (length (heap (handler st))) (complete P (length (heap (handler st)))
           (startUserJoined m ?st1))) = []"
      using seq_joined [OF c, of P m] assms by simp
    show ?thesis
      using joined seq_joined [OF c, of P m] ch
      by (simp add: deliver_def handleSignalingMessage_def Let_def targetOf_def)
  next
    case left
    then show ?thesis
      using assms by (simp add: deliver_def handleSignalingMessage_def Let_def)
  next
    case offer
    then have "msgType m \<noteq> Some ''user-joined''" by simp
    from seq_offer [OF c this, of P] show ?thesis
      using offer by (simp add: deliver_def handleSignalingMessage_def Let_def)
  next
    case answer
    show ?thesis
    proof (cases "map_of (peerConnections (handler st)) (msgFrom m)")
      case None
      then show ?thesis
        using answer assms
        by (simp add: deliver_def handleSignalingMessage_def Let_def startAnswer_def
            handleAnswer_def)
    next
      case (Some a)
      then have "map_of (peerConnections (handler ?st1)) (msgFrom m) = Some a" by simp
      from seq_answer [OF c this, of P] show ?thesis
        using answer Some assms
        by (simp add: deliver_def handleSignalingMessage_def Let_def targetOf_def)
    qed
  next
    case ice
    show ?thesis
    proof (cases "map_of (peerConnections (handler st)) (msgFrom m)")
      case None
      then show ?thesis
        using ice assms
        by (simp add: deliver_def handleSignalingMessage_def Let_def startIceCandidate_def
            handleIceCandidate_def)
    next
      case (Some a)
      then have "map_of (peerConnections (handler ?st1)) (msgFrom m) = Some a" by simp
      from seq_ice [OF c this, of P] show ?thesis
        using ice Some assms
        by (simp add: deliver_def handleSignalingMessage_def Let_def targetOf_def)
    qed
  next
    case other
    then show ?thesis
      using assms by (simp add: deliver_def handleSignalingMessage_def Let_def)
  qed
qed

section \<open>The dispatcher\<close>

text \<open>
  Claim C8. A message whose \<open>type\<close> is none of the five kinds the \<open>switch\<close> of
  \<open>handleSignalingMessage\<close> names is discarded: the handler does not throw, writes the one
  console line that reports the receipt of the message with its type, and changes nothing
  else. The map, the connection objects, the socket and the messages sent are as before.
\<close>

theorem unrecognized_type_discarded:
  assumes "msgType m \<noteq> Some ''user-joined''" and "msgType m \<noteq> Some ''user-left''"
    and "msgType m \<noteq> Some ''offer''" and "msgType m \<noteq> Some ''answer''"
    and "msgType m \<noteq> Some ''ice-candidate''"
  shows "handleSignalingMessage P m h =
           (None, h\<lparr>console := console h @
              [ConsoleLog ''WebRTC: Received signaling message:'' [msgType m]]\<rparr>)"
  using assms by (simp add: handleSignalingMessage_def consoleLog_def)

theorem unrecognized_type_discarded_witness:
  "handleSignalingMessage acceptAll
     (emptySignal\<lparr>msgType := Some ''media-state-change'', msgUserId := Some ''u2''\<rparr>)
     handlerU1 =
   (None, handlerU1\<lparr>console :=
      [ConsoleLog ''WebRTC: Received signaling message:'' [Some ''media-state-change'']]\<rparr>)"
  using unrecognized_type_discarded [of
      "emptySignal\<lparr>msgType := Some ''media-state-change'', msgUserId := Some ''u2''\<rparr>"
      acceptAll handlerU1]
  by (simp add: handlerU1_def)

section \<open>Outbound messages\<close>

text \<open>
  Claim C9. \<open>sendSignal\<close> is the only place that writes to the socket. When the socket is
  open it sends exactly one message, the payload with its \<open>from\<close> field replaced by the
  handler's own id, whatever \<open>from\<close> the payload carried. Hence, if every message sent so
  far carries the handler's id as sender, the same holds after \<open>sendSignal\<close> and after
  every operation of the class: the dispatcher, the local candidate callback, the open
  callback, the media-state notification, both screen-share operations and \<open>close\<close>.
\<close>

theorem outbound_from_is_local_user:
  assumes "stamped h"
  shows "stamped (sendSignal data h)
       \<and> (ws h = Some WS_OPEN \<longrightarrow>
            sent (sendSignal data h) = sent h @ [data\<lparr>msgFrom := userId h\<rparr>])
       \<and> userId (sendSignal data h) = userId h
       \<and> stamped (snd (handleSignalingMessage P msg h))
       \<and> stamped (onmessages P msgs h)
       \<and> stamped (onicecandidate a c h)
       \<and> stamped (onopen h)
       \<and> stamped (notifyMediaStateChange muted videoOff h)
       \<and> stamped (snd (addScreenShareTrack P t h))
       \<and> stamped (snd (removeScreenShareTrack P t h))
       \<and> stamped (snd (close h))"
  using assms
  by (simp add: stamped_handleSignalingMessage stamped_onmessages stamped_onicecandidate
      stamped_onopen stamped_notifyMediaStateChange stamped_addScreenShareTrack
      stamped_removeScreenShareTrack stamped_close)

theorem outbound_from_is_local_user_witness:
  "stamped handlerU1
   \<and> stamped (sendSignal (emptySignal\<lparr>msgType := Some ''offer'', msgFrom := Some ''mallory''\<rparr>)
         handlerU1)
   \<and> sent (sendSignal (emptySignal\<lparr>msgType := Some ''offer'', msgFrom := Some ''mallory''\<rparr>)
         handlerU1) = [emptySignal\<lparr>msgType := Some ''offer'', msgFrom := Some ''u1''\<rparr>]"
proof -
  have h: "stamped handlerU1"
    by (simp add: stamped_def handlerU1_def)
  show ?thesis
    using h outbound_from_is_local_user [OF h, of
        "emptySignal\<lparr>msgType := Some ''offer'', msgFrom := Some ''mallory''\<rparr>"]
    by (simp add: handlerU1_def)
qed

section \<open>The session directory\<close>

text \<open>
  Claim C3. Take any sequence of \<open>user-joined\<close> and \<open>user-left\<close> messages whose
  \<open>userId\<close> differs from the handler's own id, handled in arrival order. Afterwards the
  key set of the peer-connection map is exactly the set of participants that have joined
  and not yet left (computed from the events by \<open>spec_present\<close>, starting from the keys
  the map had), and no id occurs twice among the keys of the map.
\<close>

theorem directory_tracks_joined_not_left:
  assumes "\<forall>m \<in> set ms. (msgType m = Some ''user-joined'' \<or> msgType m = Some ''user-left'')
                           \<and> msgUserId m \<noteq> userId h"
    and "distinct (map fst (peerConnections h))"
  shows "fst ` set (peerConnections (onmessages P ms h)) =
           spec_present ms (fst ` set (peerConnections h))
       \<and> distinct (map fst (peerConnections (onmessages P ms h)))"
  using assms
proof (induction ms arbitrary: h)
  case Nil
  then show ?case by simp
next
  case (Cons m ms)
  let ?h1 = "snd (handleSignalingMessage P m h)"
  have ty: "msgType m = Some ''user-joined'' \<or> msgType m = Some ''user-left''"
    and ne: "msgUserId m \<noteq> userId h"
    using Cons.prems(1) by simp_all
  have uid: "userId ?h1 = userId h"
    using ty by (auto simp: handleSignalingMessage_def Let_def handleUserJoined_userId
        handleUserLeft_userId)
  have keys: "fst ` set (peerConnections ?h1) =
      (if msgType m = Some ''user-joined'' then insert (msgUserId m) (fst ` set (peerConnections h))
       else fst ` set (peerConnections h) - {msgUserId m})"
    using ty ne
    by (auto simp: handleSignalingMessage_def Let_def handleUserJoined_map handleUserLeft_map
        AList.dom_update AList.delete_eq)
  have dist: "distinct (map fst (peerConnections ?h1))"
    using ty ne Cons.prems(2)
    by (auto simp: handleSignalingMessage_def Let_def handleUserJoined_map handleUserLeft_map
        AList.distinct_update AList.distinct_delete)
  have "\<forall>m \<in> set ms. (msgType m = Some ''user-joined'' \<or> msgType m = Some ''user-left'')
                           \<and> msgUserId m \<noteq> userId ?h1"
    using Cons.prems(1) uid by simp
  from Cons.IH [OF this dist] keys ty show ?case
    by auto
qed

theorem directory_tracks_joined_not_left_witness:
  "distinct (map fst (peerConnections handlerU1))
   \<and> fst ` set (peerConnections
         (onmessages acceptAll [userJoinedU2, userJoinedU3, userLeftU2] handlerU1)) = {Some ''u3''}
   \<and> distinct (map fst (peerConnections
         (onmessages acceptAll [userJoinedU2, userJoinedU3, userLeftU2] handlerU1)))"
proof -
  have a: "\<forall>m \<in> set [userJoinedU2, userJoinedU3, userLeftU2].
       (msgType m = Some ''user-joined'' \<or> msgType m = Some ''user-left'')
       \<and> msgUserId m \<noteq> userId handlerU1"
    by (simp add: userJoinedU2_def userJoinedU3_def userLeftU2_def emptySignal_def
        handlerU1_def)
  have b: "distinct (map fst (peerConnections handlerU1))"
    by (simp add: handlerU1_def)
  have c: "spec_present [userJoinedU2, userJoinedU3, userLeftU2]
      (fst ` set (peerConnections handlerU1)) = {Some ''u3''}"
    by (auto simp: userJoinedU2_def userJoinedU3_def userLeftU2_def emptySignal_def
        handlerU1_def)
  show ?thesis
    using a b directory_tracks_joined_not_left [OF a b, of acceptAll] by (simp only: c simp_thms)
qed

text \<open>
  Claim C10. A \<open>user-joined\<close> message for a participant (not the local user) who already
  has a connection in the map: \<open>handleUserJoined\<close> allocates a new connection object and
  stores it under the same key, so the map entry now refers to the new object. The object
  stored before is not touched: no object that existed before the call is changed, so in
  particular the old one is not closed. When no two keys of the map share an object, no
  entry of the map refers to the old object any more.
\<close>

theorem user_joined_overwrites_without_close:
  assumes "msgUserId m \<noteq> userId h"
    and "map_of (peerConnections h) (msgUserId m) = Some a"
    and "a < length (heap h)"
  shows "\<exists>h'. handleUserJoined P m h = (None, h')
           \<and> map_of (peerConnections h') (msgUserId m) = Some (length (heap h))
           \<and> length (heap h) \<noteq> a
           \<and> heap h' ! length (heap h) = offeredPc P (msgUserId m) (localTracks h)
           \<and> take (length (heap h)) (heap h') = heap h
           \<and> heap h' ! a = heap h ! a
           \<and> (distinct (map snd (peerConnections h)) \<longrightarrow> a \<notin> snd ` set (peerConnections h'))"
  using assms update_drops_old [of "peerConnections h" "msgUserId m" a "length (heap h)"]
  by (simp add: handleUserJoined_result AList.update_conv' nth_append)
theorem user_joined_overwrites_without_close_witness:
  "msgUserId userJoinedU2 \<noteq> userId connectedU2
   \<and> map_of (peerConnections connectedU2) (msgUserId userJoinedU2) = Some 0
   \<and> 0 < length (heap connectedU2)
   \<and> (\<exists>h'. handleUserJoined acceptAll userJoinedU2 connectedU2 = (None, h')
          \<and> map_of (peerConnections h') (Some ''u2'') = Some 1
          \<and> heap h' ! 0 = newRTCPeerConnection (Some ''u2'')
          \<and> signalingState (heap h' ! 0) = STABLE
          \<and> 0 \<notin> snd ` set (peerConnections h'))"
proof -
  have a: "msgUserId userJoinedU2 \<noteq> userId connectedU2"
    and b: "map_of (peerConnections connectedU2) (msgUserId userJoinedU2) = Some 0"
    and c: "0 < length (heap connectedU2)"
    by (simp_all add: userJoinedU2_def emptySignal_def connectedU2_def handlerU1_def)
  have d: "msgUserId userJoinedU2 = Some ''u2''" "length (heap connectedU2) = 1"
    "heap connectedU2 ! 0 = newRTCPeerConnection (Some ''u2'')"
    "distinct (map snd (peerConnections connectedU2))"
    by (simp_all add: userJoinedU2_def emptySignal_def connectedU2_def handlerU1_def)
  have e: "signalingState (newRTCPeerConnection (Some ''u2'')) = STABLE"
    by (simp add: newRTCPeerConnection_def)
  show ?thesis
    using a b c user_joined_overwrites_without_close [OF a b c, of acceptAll]
    by (auto simp: d e)
qed

section \<open>The offerer path\<close>

text \<open>
  Claim C4. The handler of user \<open>u1\<close> has an open socket and receives a \<open>user-joined\<close>
  message for \<open>u2\<close>. The handler does not throw; exactly one message is sent, of type
  \<open>offer\<close>, to \<open>u2\<close>, from \<open>u1\<close>, carrying a description of type offer; and the map
  holds a connection for \<open>u2\<close> whose signaling state is \<open>HAVE_LOCAL_OFFER\<close> and whose local
  description is the one sent. This holds whether or not \<open>u2\<close> had a connection before.
\<close>

theorem offerer_path:
  assumes "userId h = Some ''u1''" and "ws h = Some WS_OPEN"
    and "msgType m = Some ''user-joined''" and "msgUserId m = Some ''u2''"
  shows "\<exists>h' sdp. handleSignalingMessage P m h = (None, h')
           \<and> sent h' = sent h @ [emptySignal\<lparr>msgType := Some ''offer'', msgTo := Some ''u2'',
                                      msgFrom := Some ''u1'', msgSdp := Some sdp\<rparr>]
           \<and> sdType sdp = Offer
           \<and> map_option signalingState (connectionOf h' (Some ''u2'')) = Some HAVE_LOCAL_OFFER
           \<and> map_option localDescription (connectionOf h' (Some ''u2'')) = Some (Some sdp)"
proof -
  let ?h1 = "consoleLog ''WebRTC: Received signaling message:'' [msgType m] h"
  have ne: "msgUserId m \<noteq> userId ?h1"
    using assms by simp
  have ld: "localDescription (offeredPc P (Some ''u2'') ts) =
      Some \<lparr>sdType = Offer, sdpText = offerText P ((newRTCPeerConnection (Some ''u2''))\<lparr>senders := ts\<rparr>)\<rparr>"
    and st: "signalingState (offeredPc P (Some ''u2'') ts) = HAVE_LOCAL_OFFER" for ts
    by (simp_all add: offeredPc_def Let_def localDescription_def)
  show ?thesis
    using assms handleUserJoined_result [OF ne, of P]
    by (simp add: handleSignalingMessage_def Let_def ld st connectionOf_def AList.update_conv'
        emptySignal_def)
qed

theorem offerer_path_witness:
  "userId handlerU1 = Some ''u1'' \<and> ws handlerU1 = Some WS_OPEN
   \<and> msgType userJoinedU2 = Some ''user-joined'' \<and> msgUserId userJoinedU2 = Some ''u2''
   \<and> (\<exists>h' sdp. handleSignalingMessage acceptAll userJoinedU2 handlerU1 = (None, h')
           \<and> sent h' = [emptySignal\<lparr>msgType := Some ''offer'', msgTo := Some ''u2'',
                                      msgFrom := Some ''u1'', msgSdp := Some sdp\<rparr>]
           \<and> sdType sdp = Offer
           \<and> map_option signalingState (connectionOf h' (Some ''u2'')) = Some HAVE_LOCAL_OFFER
           \<and> map_option localDescription (connectionOf h' (Some ''u2'')) = Some (Some sdp))"
proof -
  have a: "userId handlerU1 = Some ''u1''" and b: "ws handlerU1 = Some WS_OPEN"
    and c: "msgType userJoinedU2 = Some ''user-joined''"
    and d: "msgUserId userJoinedU2 = Some ''u2''"
    by (simp_all add: handlerU1_def userJoinedU2_def emptySignal_def)
  have e: "sent handlerU1 = []"
    by (simp add: handlerU1_def)
  show ?thesis
    using a b c d offerer_path [OF a b c d, of acceptAll] by (simp add: e)
qed


section \<open>Shutdown\<close>

text \<open>
  Claim C6. \<open>close\<close> never throws and leaves the peer-connection map empty and the socket
  field null, in every state of the handler: with a socket that is open, still connecting
  or closed, and with no socket at all, as in a handler on which \<open>initialize\<close> was never
  called. A second \<open>close\<close> right after the first does not throw either, leaves the map
  empty again, and changes neither the connection objects nor the messages sent.
\<close>

theorem close_twice_never_faults:
  "fst (close h) = None \<and> peerConnections (snd (close h)) = [] \<and> ws (snd (close h)) = None
   \<and> fst (close (snd (close h))) = None \<and> peerConnections (snd (close (snd (close h)))) = []
   \<and> ws (snd (close (snd (close h)))) = None
   \<and> heap (snd (close (snd (close h)))) = heap (snd (close h))
   \<and> sent (snd (close (snd (close h)))) = sent (snd (close h))
   \<and> close (constructor mid uid uname stream) =
       (None, (constructor mid uid uname stream)
                \<lparr>console := [ConsoleLog ''WebRTC: Closing all connections'' []]\<rparr>)"
  by (simp add: close_def Let_def constructor_def consoleLog_def split: option.splits)

section \<open>The answerer path\<close>

text \<open>
  Claim C5. The handler of user \<open>u1\<close> has an open socket and no connection for \<open>u3\<close>, and
  receives an \<open>offer\<close> message from \<open>u3\<close> whose description is an offer the browser
  accepts. The handler does not throw; the map gets an entry for \<open>u3\<close> that refers to a
  newly allocated connection; exactly one message is sent, of type \<open>answer\<close>, to \<open>u3\<close>,
  from \<open>u1\<close>, carrying a description of type answer; and the connection ends in signaling
  state \<open>STABLE\<close>, with the received offer as remote and the sent answer as local
  description.
\<close>

theorem answerer_path:
  assumes "userId h = Some ''u1''" and "ws h = Some WS_OPEN"
    and "map_of (peerConnections h) (Some ''u3'') = None"
    and "msgType m = Some ''offer''" and "msgFrom m = Some ''u3''"
    and "msgSdp m = Some d" and "sdType d = Offer" and "acceptsDescription P d"
  shows "\<exists>h' sdp. handleSignalingMessage P m h = (None, h')
           \<and> map_of (peerConnections h') (Some ''u3'') = Some (length (heap h))
           \<and> sent h' = sent h @ [emptySignal\<lparr>msgType := Some ''answer'', msgTo := Some ''u3'',
                                      msgFrom := Some ''u1'', msgSdp := Some sdp\<rparr>]
           \<and> sdType sdp = Answer
           \<and> map_option signalingState (connectionOf h' (Some ''u3'')) = Some STABLE
           \<and> map_option remoteDescription (connectionOf h' (Some ''u3'')) = Some (Some d)
           \<and> map_option localDescription (connectionOf h' (Some ''u3'')) = Some (Some sdp)"
proof -
  let ?h1 = "consoleLog ''WebRTC: Received signaling message:'' [msgType m] h"
  define h3 where "h3 = ?h1\<lparr>console := console ?h1 @
          [ConsoleLog ''WebRTC: Received offer from'' [msgFrom m]],
        heap := heap ?h1 @ [(newRTCPeerConnection (msgFrom m))\<lparr>senders := localTracks ?h1\<rparr>],
        peerConnections :=
          AList.update (msgFrom m) (length (heap ?h1)) (peerConnections ?h1)\<rparr>"
  have un: "map_of (peerConnections ?h1) (msgFrom m) = None"
    using assms by simp
  have ho: "handleOffer P m ?h1 = offerTry P m (length (heap h)) h3"
    using handleOffer_unknown [OF un, of P] by (simp add: h3_def)
  have at: "heap h3 ! length (heap h) =
      (newRTCPeerConnection (msgFrom m))\<lparr>senders := localTracks ?h1\<rparr>"
    and len: "length (heap h) < length (heap h3)"
    by (simp_all add: h3_def)
  have st: "signalingState (heap h3 ! length (heap h)) = STABLE"
    by (simp add: at newRTCPeerConnection_def)
  have ot: "offerTry P m (length (heap h)) h3 =
     (None, sendSignal (emptySignal\<lparr>msgType := Some ''answer'', msgTo := msgFrom m,
                msgSdp := localDescription (answeredPc P (heap h3 ! length (heap h)) d)\<rparr>)
        (setPc (length (heap h)) (answeredPc P (heap h3 ! length (heap h)) d) h3))"
    using offerTry_offer_ok [OF assms(6,7,8) _ len] st by simp
  have flds: "sent h3 = sent h" "ws h3 = ws h" "userId h3 = userId h"
    "peerConnections h3 = AList.update (msgFrom m) (length (heap h)) (peerConnections h)"
    by (simp_all add: h3_def)
  have an: "signalingState (answeredPc P pc d) = STABLE"
    "remoteDescription (answeredPc P pc d) = Some d"
    "localDescription (answeredPc P pc d) = Some \<lparr>sdType = Answer, sdpText = answerText P
        (pc\<lparr>signalingState := HAVE_REMOTE_OFFER, pendingRemoteDescription := Some d\<rparr>)\<rparr>" for pc
    by (simp_all add: answeredPc_def Let_def localDescription_def remoteDescription_def)
  have hs: "handleSignalingMessage P m h = handleOffer P m ?h1"
    using assms(4) by (simp add: handleSignalingMessage_def Let_def)
  show ?thesis
    unfolding hs ho ot
    using assms(1,2,5) len
    by (simp add: flds an connectionOf_def AList.update_conv' emptySignal_def)
qed

theorem answerer_path_witness:
  "\<exists>h' sdp. handleSignalingMessage acceptAll (offerFrom ''u3'' remoteOffer) handlerU1 = (None, h')
           \<and> map_of (peerConnections h') (Some ''u3'') = Some 0
           \<and> sent h' = [emptySignal\<lparr>msgType := Some ''answer'', msgTo := Some ''u3'',
                                      msgFrom := Some ''u1'', msgSdp := Some sdp\<rparr>]
           \<and> sdType sdp = Answer
           \<and> map_option signalingState (connectionOf h' (Some ''u3'')) = Some STABLE
           \<and> map_option remoteDescription (connectionOf h' (Some ''u3'')) = Some (Some remoteOffer)
           \<and> map_option localDescription (connectionOf h' (Some ''u3'')) = Some (Some sdp)"
proof -
  have a: "userId handlerU1 = Some ''u1''" and b: "ws handlerU1 = Some WS_OPEN"
    and c: "map_of (peerConnections handlerU1) (Some ''u3'') = None"
    and d: "msgType (offerFrom ''u3'' remoteOffer) = Some ''offer''"
    and e: "msgFrom (offerFrom ''u3'' remoteOffer) = Some ''u3''"
    and f: "msgSdp (offerFrom ''u3'' remoteOffer) = Some remoteOffer"
    and g: "sdType remoteOffer = Offer" and i: "acceptsDescription acceptAll remoteOffer"
    by (simp_all add: handlerU1_def offerFrom_def emptySignal_def remoteOffer_def acceptAll_def)
  have j: "sent handlerU1 = []" "length (heap handlerU1) = 0"
    by (simp_all add: handlerU1_def)
  show ?thesis
    using answerer_path [OF a b c d e f g i] by (simp add: j)
qed

section \<open>Failures of a negotiation step\<close>

text \<open>
  Claim C2, as the code has it. The claim says that a connection whose description or
  candidate application fails is removed from the map. The \<open>catch\<close> blocks of
  \<open>handleOffer\<close>, \<open>handleAnswer\<close> and \<open>handleIceCandidate\<close> only write to the console, so
  the connection stays. What holds: when
  \<open>pc.setRemoteDescription(new RTCSessionDescription(sdp))\<close> or
  \<open>pc.addIceCandidate(new RTCIceCandidate(candidate))\<close> fails while a message from
  participant \<open>X\<close> is handled, the handler does not throw, the error is written to the
  console, and nothing else changes: \<open>X\<close> keeps its entry in the map, no message is sent,
  and every other entry of the map and every connection object is as before. For an offer
  from a participant without a connection, the connection created for it (with the local
  tracks attached) stays in the map as well.
\<close>

theorem negotiation_failure_only_logged:
  "(map_of (peerConnections h) (msgFrom m) = Some a
      \<and> applyRemote P (heap h ! a) (msgSdp m) = Inl e \<longrightarrow>
    handleAnswer P m h =
      (None, consoleError ''WebRTC: Error setting remote description from'' [msgFrom m] e
               (consoleLog ''WebRTC: Received answer from'' [msgFrom m] h)))
   \<and> (map_of (peerConnections h) (msgFrom m) = Some a \<and> msgCandidate m = Some c
      \<and> applyCandidate P (heap h ! a) c = Inl e \<longrightarrow>
    handleIceCandidate P m h =
      (None, consoleError ''WebRTC: Error adding ICE candidate from'' [msgFrom m] e h))
   \<and> (map_of (peerConnections h) (msgFrom m) = Some a
      \<and> applyRemote P (heap h ! a) (msgSdp m) = Inl e \<longrightarrow>
    handleOffer P m h =
      (None, consoleError ''WebRTC: Error handling offer from'' [msgFrom m] e
               (consoleLog ''WebRTC: Received offer from'' [msgFrom m] h)))
   \<and> (map_of (peerConnections h) (msgFrom m) = None
      \<and> applyRemote P (newRTCPeerConnection (msgFrom m)) (msgSdp m) = Inl e \<longrightarrow>
    handleOffer P m h =
      (None, consoleError ''WebRTC: Error handling offer from'' [msgFrom m] e
               (h\<lparr>console := console h @
                     [ConsoleLog ''WebRTC: Received offer from'' [msgFrom m]],
                  heap := heap h @
                     [(newRTCPeerConnection (msgFrom m))\<lparr>senders := localTracks h\<rparr>],
                  peerConnections :=
                     AList.update (msgFrom m) (length (heap h)) (peerConnections h)\<rparr>)))"
proof (intro conjI impI)
  assume "map_of (peerConnections h) (msgFrom m) = Some a
      \<and> applyRemote P (heap h ! a) (msgSdp m) = Inl e"
  then show "handleAnswer P m h =
      (None, consoleError ''WebRTC: Error setting remote description from'' [msgFrom m] e
               (consoleLog ''WebRTC: Received answer from'' [msgFrom m] h))"
    by (auto simp: handleAnswer_def Let_def applyRemote_def split: sum.splits)
next
  assume "map_of (peerConnections h) (msgFrom m) = Some a \<and> msgCandidate m = Some c
      \<and> applyCandidate P (heap h ! a) c = Inl e"
  then show "handleIceCandidate P m h =
      (None, consoleError ''WebRTC: Error adding ICE candidate from'' [msgFrom m] e h)"
    by (auto simp: handleIceCandidate_def applyCandidate_def split: sum.splits)
next
  assume "map_of (peerConnections h) (msgFrom m) = Some a
      \<and> applyRemote P (heap h ! a) (msgSdp m) = Inl e"
  then show "handleOffer P m h =
      (None, consoleError ''WebRTC: Error handling offer from'' [msgFrom m] e
               (consoleLog ''WebRTC: Received offer from'' [msgFrom m] h))"
    by (simp add: handleOffer_known offerTry_fail)
next
  assume as: "map_of (peerConnections h) (msgFrom m) = None
      \<and> applyRemote P (newRTCPeerConnection (msgFrom m)) (msgSdp m) = Inl e"
  then have "applyRemote P ((newRTCPeerConnection (msgFrom m))\<lparr>senders := localTracks h\<rparr>)
      (msgSdp m) = Inl e"
    by (simp add: applyRemote_senders)
  then show "handleOffer P m h =
      (None, consoleError ''WebRTC: Error handling offer from'' [msgFrom m] e
               (h\<lparr>console := console h @
                     [ConsoleLog ''WebRTC: Received offer from'' [msgFrom m]],
                  heap := heap h @
                     [(newRTCPeerConnection (msgFrom m))\<lparr>senders := localTracks h\<rparr>],
                  peerConnections :=
                     AList.update (msgFrom m) (length (heap h)) (peerConnections h)\<rparr>))"
    using as by (simp add: handleOffer_unknown offerTry_fail)
qed

theorem negotiation_failure_only_logged_witness:
  "handleAnswer acceptAll ((answerFrom ''u2'' remoteAnswer)\<lparr>msgCandidate := Some candidate0\<rparr>)
     connectedU2 =
     (None, connectedU2\<lparr>console :=
        [ConsoleLog ''WebRTC: Received answer from'' [Some ''u2''],
         ConsoleError ''WebRTC: Error setting remote description from'' [Some ''u2'']
           InvalidStateError]\<rparr>)
   \<and> handleIceCandidate acceptAll
       ((answerFrom ''u2'' remoteAnswer)\<lparr>msgCandidate := Some candidate0\<rparr>) connectedU2 =
     (None, connectedU2\<lparr>console :=
        [ConsoleError ''WebRTC: Error adding ICE candidate from'' [Some ''u2'']
           InvalidStateError]\<rparr>)
   \<and> handleOffer acceptAll
       ((answerFrom ''u2'' remoteAnswer)\<lparr>msgCandidate := Some candidate0\<rparr>) connectedU2 =
     (None, connectedU2\<lparr>console :=
        [ConsoleLog ''WebRTC: Received offer from'' [Some ''u2''],
         ConsoleError ''WebRTC: Error handling offer from'' [Some ''u2'']
           InvalidStateError]\<rparr>)
   \<and> handleOffer rejectAll (offerFrom ''u2'' remoteOffer) handlerU1 =
     (None, handlerU1\<lparr>peerConnections := [(Some ''u2'', 0)],
        heap := [newRTCPeerConnection (Some ''u2'')],
        console :=
        [ConsoleLog ''WebRTC: Received offer from'' [Some ''u2''],
         ConsoleError ''WebRTC: Error handling offer from'' [Some ''u2'']
           OperationError]\<rparr>)"
proof -
  let ?m = "(answerFrom ''u2'' remoteAnswer)\<lparr>msgCandidate := Some candidate0\<rparr>"
  have a: "map_of (peerConnections connectedU2) (msgFrom ?m) = Some 0"
    and b: "applyRemote acceptAll (heap connectedU2 ! 0) (msgSdp ?m) = Inl InvalidStateError"
    and c: "msgCandidate ?m = Some candidate0"
    and d: "applyCandidate acceptAll (heap connectedU2 ! 0) candidate0 = Inl InvalidStateError"
    by (simp_all add: connectedU2_def handlerU1_def answerFrom_def emptySignal_def
        applyRemote_def applyCandidate_def newRTCSessionDescription_def
        pc_setRemoteDescription_def newRTCIceCandidate_def pc_addIceCandidate_def
        newRTCPeerConnection_def remoteAnswer_def candidate0_def remoteDescription_def)
  have f: "map_of (peerConnections handlerU1) (msgFrom (offerFrom ''u2'' remoteOffer)) = None"
    and g: "applyRemote rejectAll (newRTCPeerConnection (msgFrom (offerFrom ''u2'' remoteOffer)))
        (msgSdp (offerFrom ''u2'' remoteOffer)) = Inl OperationError"
    by (simp_all add: handlerU1_def offerFrom_def emptySignal_def applyRemote_def
        newRTCSessionDescription_def pc_setRemoteDescription_def newRTCPeerConnection_def
        remoteOffer_def rejectAll_def)
  have i: "msgFrom ?m = Some ''u2''" "msgFrom (offerFrom ''u2'' remoteOffer) = Some ''u2''"
    by (simp_all add: answerFrom_def offerFrom_def emptySignal_def)
  show ?thesis
    using negotiation_failure_only_logged [of connectedU2 ?m 0 acceptAll InvalidStateError
        candidate0] a b c d
      negotiation_failure_only_logged [of handlerU1 "offerFrom ''u2'' remoteOffer" 0 rejectAll
        OperationError candidate0] f g
    by (simp add: i)
       (simp add: connectedU2_def handlerU1_def consoleLog_def consoleError_def localTracks_def
        newRTCPeerConnection_def)
qed

text \<open>
  The claim as stated fails. An answer that arrives for a connection in state \<open>STABLE\<close>
  is rejected by the browser, and an offer the browser does not accept is rejected too; in
  both cases the error is logged and the connection of \<open>u2\<close> is still in the map.
\<close>

theorem failed_negotiation_keeps_connection_counterexample:
  "handleSignalingMessage acceptAll (answerFrom ''u2'' remoteAnswer) connectedU2 =
     (None, connectedU2\<lparr>console :=
        [ConsoleLog ''WebRTC: Received signaling message:'' [Some ''answer''],
         ConsoleLog ''WebRTC: Received answer from'' [Some ''u2''],
         ConsoleError ''WebRTC: Error setting remote description from'' [Some ''u2'']
           InvalidStateError]\<rparr>)
   \<and> map_of (peerConnections connectedU2) (Some ''u2'') = Some 0
   \<and> handleSignalingMessage rejectAll (offerFrom ''u2'' remoteOffer) handlerU1 =
     (None, handlerU1\<lparr>peerConnections := [(Some ''u2'', 0)],
        heap := [newRTCPeerConnection (Some ''u2'')],
        console :=
        [ConsoleLog ''WebRTC: Received signaling message:'' [Some ''offer''],
         ConsoleLog ''WebRTC: Received offer from'' [Some ''u2''],
         ConsoleError ''WebRTC: Error handling offer from'' [Some ''u2'']
           OperationError]\<rparr>)"
  by (simp add: handleSignalingMessage_def handleAnswer_def handleOffer_def offerTry_def
      offerSteps_def Let_def createPeerConnection_def addLocalStream_def
      newRTCSessionDescription_def pc_setRemoteDescription_def connectedU2_def handlerU1_def
      answerFrom_def offerFrom_def emptySignal_def remoteAnswer_def remoteOffer_def
      newRTCPeerConnection_def acceptAll_def rejectAll_def consoleLog_def consoleError_def)

section \<open>Answers\<close>




section \<open>Remote ICE candidates\<close>




end
